theory Spec2Isabelle
  imports Complex_Main
begin

section \<open>JavaScript values\<close>

text \<open>
  The values that \<^verbatim>\<open>JSON.parse\<close> produces, together with \<^verbatim>\<open>undefined\<close>. An object
  is the list of its own properties (keys distinct); reading a property that is not
  there gives \<^verbatim>\<open>undefined\<close>. A number is the real number the parsed double stands for
  (\<^verbatim>\<open>JSON.parse\<close> never yields \<^verbatim>\<open>NaN\<close>; the infinities of an overflowing literal are
  not represented). Strings are their UTF-8 bytes.
\<close>

datatype jsval =
    JUndefined
  | JNull
  | JBool bool
  | JNum real
  | JStr string
  | JArr "jsval list"
  | JObj "(string \<times> jsval) list"

type_synonym jsobj = "(string \<times> jsval) list"

text \<open>What a \<^verbatim>\<open>throw\<close> or a rejected promise carries: the constructor and the message.\<close>

datatype error = Error string | AssertionError string | TypeError string

definition get_prop :: "jsobj \<Rightarrow> string \<Rightarrow> jsval" where
  "get_prop obj k = (case map_of obj k of None \<Rightarrow> JUndefined | Some v \<Rightarrow> v)"

definition opt_js :: "string option \<Rightarrow> jsval" where
  "opt_js s = (case s of None \<Rightarrow> JUndefined | Some x \<Rightarrow> JStr x)"

text \<open>\<^verbatim>\<open>ToBoolean\<close>: what \<^verbatim>\<open>if (v)\<close>, \<^verbatim>\<open>!v\<close> and \<^verbatim>\<open>a || b\<close> test.\<close>

fun truthy :: "jsval \<Rightarrow> bool" where
  "truthy JUndefined = False"
| "truthy JNull = False"
| "truthy (JBool b) = b"
| "truthy (JNum n) = (n \<noteq> 0)"
| "truthy (JStr s) = (s \<noteq> [])"
| "truthy (JArr xs) = True"
| "truthy (JObj kvs) = True"

fun isArray :: "jsval \<Rightarrow> bool" where
  "isArray (JArr xs) = True"
| "isArray v = False"

fun is_number :: "jsval \<Rightarrow> bool" where
  "is_number (JNum n) = True"
| "is_number v = False"

fun is_object :: "jsval \<Rightarrow> bool" where
  "is_object (JArr xs) = True"
| "is_object (JObj kvs) = True"
| "is_object v = False"

text \<open>\<^verbatim>\<open>a <= b\<close> and \<^verbatim>\<open>a < b\<close> where the left (right) operand is known to be a number.\<close>

fun num_le :: "jsval \<Rightarrow> int \<Rightarrow> bool" where
  "num_le (JNum n) k = (n \<le> of_int k)"
| "num_le v k = False"

fun num_gt :: "jsval \<Rightarrow> int \<Rightarrow> bool" where
  "num_gt (JNum n) k = (of_int k < n)"
| "num_gt v k = False"

definition startsWith :: "string \<Rightarrow> string \<Rightarrow> bool" where
  "startsWith s p = (take (length p) s = p)"

definition endsWith :: "string \<Rightarrow> string \<Rightarrow> bool" where
  "endsWith s p = (length p \<le> length s \<and> drop (length s - length p) s = p)"

text \<open>\<^verbatim>\<open>s.split('.')\<close>: never empty, one part more than there are dots.\<close>

fun split_dot :: "string \<Rightarrow> string list" where
  "split_dot [] = [[]]"
| "split_dot (x # xs) =
     (if x = CHR ''.'' then [] # split_dot xs
      else (case split_dot xs of [] \<Rightarrow> [[x]] | p # ps \<Rightarrow> (x # p) # ps))"

text \<open>\<^verbatim>\<open>parts[i]\<close>: \<^verbatim>\<open>undefined\<close> (here \<open>None\<close>) past the end.\<close>

fun part :: "string list \<Rightarrow> nat \<Rightarrow> string option" where
  "part [] i = None"
| "part (p # ps) 0 = Some p"
| "part (p # ps) (Suc i) = part ps i"

section \<open>Collaborators\<close>

text \<open>A key of node-jose: its identifier and the algorithms \<^verbatim>\<open>key.algorithms('sign')\<close> lists.\<close>

datatype jwk = JWK string "string list"

fun algorithms_sign :: "jwk \<Rightarrow> string list" where
  "algorithms_sign (JWK kid algs) = algs"

text \<open>
  A key store of node-jose, as the two methods the client calls: \<^verbatim>\<open>all()\<close> and
  \<^verbatim>\<open>get({ alg })\<close> (\<open>None\<close> for an \<^verbatim>\<open>alg\<close> that is \<^verbatim>\<open>undefined\<close>; the result \<open>None\<close>
  when the store returns no key).
\<close>

record keystore =
  ks_all :: "jwk list"
  ks_get :: "string option \<Rightarrow> jwk option"

text \<open>
  Everything the client calls that is not in the repository's source: the clock, the
  random identifiers, the coercions of the language's \<^verbatim>\<open>==\<close>, and the modules
  \<^verbatim>\<open>base64url\<close>, \<^verbatim>\<open>./token_hash\<close>, \<^verbatim>\<open>node-jose\<close> and the issuer's key lookup. They
  are parameters of the model.
  \<^item> \<open>Date_now\<close>: \<^verbatim>\<open>Date.now()\<close>, milliseconds since the epoch;
  \<^item> \<open>uuid\<close>: the result of the \<open>n\<close>-th call of \<^verbatim>\<open>uuid()\<close>;
  \<^item> \<open>StringToNumber\<close>: \<^verbatim>\<open>ToNumber\<close> on a string, \<open>None\<close> for \<^verbatim>\<open>NaN\<close>;
  \<^item> \<open>ObjectToString\<close>: \<^verbatim>\<open>ToPrimitive\<close> on an array or object of a parsed JSON text;
  \<^item> \<open>decode_json\<close>: \<^verbatim>\<open>JSON.parse(base64url.decode(x))\<close> for a segment \<open>x\<close> that may be
    \<^verbatim>\<open>undefined\<close>; a text that is not valid, or does not denote an object, is an error;
  \<^item> \<open>tokenHash\<close>: \<^verbatim>\<open>tokenHash(value, alg)\<close>, where \<open>value\<close> may be \<^verbatim>\<open>undefined\<close>;
  \<^item> \<open>JWK_asKey\<close>: \<^verbatim>\<open>jose.JWK.asKey({ k, kty: 'oct' })\<close>, from \<open>k\<close>;
  \<^item> \<open>issuer_key\<close>: \<^verbatim>\<open>this.issuer.key(headerObject)\<close>;
  \<^item> \<open>JWS_verify\<close>: \<^verbatim>\<open>jose.JWS.createVerify(key).verify(idToken)\<close>;
  \<^item> \<open>JSON_stringify\<close>: \<^verbatim>\<open>JSON.stringify\<close> on an object;
  \<^item> \<open>JWS_sign\<close>: \<^verbatim>\<open>jose.JWS.createSign({ fields: { alg, typ: 'JWT' }, format: 'compact' },
    { key, reference }).update(text).final()\<close>, from \<open>alg\<close>, \<open>key\<close>, \<open>reference\<close>, \<open>text\<close>.
\<close>

record env =
  Date_now :: int
  uuid :: "nat \<Rightarrow> string"
  StringToNumber :: "string \<Rightarrow> real option"
  ObjectToString :: "jsval \<Rightarrow> string"
  decode_json :: "string option \<Rightarrow> error + jsobj"
  tokenHash :: "string option \<Rightarrow> jsval \<Rightarrow> error + string"
  JWK_asKey :: "string \<Rightarrow> error + jwk"
  issuer_key :: "jsobj \<Rightarrow> error + jwk"
  JWS_verify :: "jwk \<Rightarrow> string \<Rightarrow> error + unit"
  JSON_stringify :: "jsobj \<Rightarrow> string"
  JWS_sign :: "string option \<Rightarrow> jwk \<Rightarrow> bool \<Rightarrow> string \<Rightarrow> error + string"

section \<open>Equality of \<^verbatim>\<open>assert.equal\<close>\<close>

text \<open>
  \<^verbatim>\<open>assert.equal(a, b, msg)\<close> throws unless \<^verbatim>\<open>a == b\<close>. The comparison is the
  language's abstract equality: \<^verbatim>\<open>undefined\<close> and \<^verbatim>\<open>null\<close> are equal to each other and to
  nothing else; two values of one primitive type are equal when they are the same; a
  number, a string and a boolean of different types are compared as numbers; an array
  or object is compared to a primitive through its primitive value; two arrays or
  objects are equal only when they are the same object, which a freshly parsed value
  never is.
\<close>

fun ToNumber :: "env \<Rightarrow> jsval \<Rightarrow> real option" where
  "ToNumber E (JNum n) = Some n"
| "ToNumber E (JStr s) = StringToNumber E s"
| "ToNumber E (JBool b) = Some (if b then 1 else 0)"
| "ToNumber E JNull = Some 0"
| "ToNumber E v = None"

fun ToPrimitive :: "env \<Rightarrow> jsval \<Rightarrow> jsval" where
  "ToPrimitive E (JArr xs) = JStr (ObjectToString E (JArr xs))"
| "ToPrimitive E (JObj kvs) = JStr (ObjectToString E (JObj kvs))"
| "ToPrimitive E v = v"

fun is_nullish :: "jsval \<Rightarrow> bool" where
  "is_nullish JUndefined = True"
| "is_nullish JNull = True"
| "is_nullish v = False"

fun prim_eq :: "env \<Rightarrow> jsval \<Rightarrow> jsval \<Rightarrow> bool" where
  "prim_eq E (JStr a) (JStr b) = (a = b)"
| "prim_eq E (JNum a) (JNum b) = (a = b)"
| "prim_eq E (JBool a) (JBool b) = (a = b)"
| "prim_eq E a b =
     (if is_nullish a \<or> is_nullish b then is_nullish a \<and> is_nullish b
      else (case (ToNumber E a, ToNumber E b) of
              (Some x, Some y) \<Rightarrow> x = y
            | _ \<Rightarrow> False))"

definition loose_eq :: "env \<Rightarrow> jsval \<Rightarrow> jsval \<Rightarrow> bool" where
  "loose_eq E a b =
     (if is_object a \<and> is_object b then False
      else prim_eq E (ToPrimitive E a) (ToPrimitive E b))"

definition assert_ok :: "bool \<Rightarrow> string \<Rightarrow> error + unit" where
  "assert_ok b msg = (if b then Inr () else Inl (AssertionError msg))"

definition assert_equal :: "env \<Rightarrow> jsval \<Rightarrow> jsval \<Rightarrow> string \<Rightarrow> error + unit" where
  "assert_equal E a b msg = assert_ok (loose_eq E a b) msg"

text \<open>Statements in sequence: the first one that throws ends the run.\<close>

fun first_failure :: "(error + unit) list \<Rightarrow> error + unit" where
  "first_failure [] = Inr ()"
| "first_failure (Inl e # cs) = Inl e"
| "first_failure (Inr u # cs) = first_failure cs"

section \<open>Issuer, client and token set\<close>

text \<open>
  The issuer's metadata that the client reads (\<^verbatim>\<open>this.issuer\<close>). A property that is
  not set is \<open>None\<close> (\<^verbatim>\<open>undefined\<close>); an array is truthy, also when it is empty.
\<close>

record issuer_metadata =
  issuer :: "string option"
  token_endpoint :: "string option"
  token_endpoint_auth_signing_alg_values_supported :: "string list option"

text \<open>
  The client's private state (\<^verbatim>\<open>instance(this)\<close>): the recognised metadata after the
  defaults, and the key store. String-valued metadata is a string or absent.
\<close>

record client =
  client_id :: "string option"
  client_secret :: "string option"
  token_endpoint_auth_method :: string
  token_endpoint_auth_signing_alg :: "string option"
  id_token_signed_response_alg :: "string option"
  userinfo_signed_response_alg :: "string option"
  keystore :: "keystore option"
  client_issuer :: issuer_metadata

text \<open>
  What the methods change: the key cached by \<^verbatim>\<open>joseSecret\<close>
  (\<^verbatim>\<open>instance(this).jose_secret\<close>) and the number of identifiers drawn from \<^verbatim>\<open>uuid()\<close>.
\<close>

record state =
  jose_secret :: "jwk option"
  uuid_calls :: nat

text \<open>
  The fields of a \<^verbatim>\<open>TokenSet\<close> that the client reads and the expiry it stores. A token
  handed to \<^verbatim>\<open>validateIdToken\<close> is a \<^verbatim>\<open>TokenSet\<close> or a bare string (the body of a
  userinfo response), on which every property read is \<^verbatim>\<open>undefined\<close>.
\<close>

record tokenset =
  id_token :: "string option"
  access_token :: "string option"
  code :: "string option"
  expires_at :: "int option"

datatype token = TokenSet tokenset | Bare string

fun token_access_token :: "token \<Rightarrow> string option" where
  "token_access_token (TokenSet ts) = access_token ts"
| "token_access_token (Bare s) = None"

fun token_code :: "token \<Rightarrow> string option" where
  "token_code (TokenSet ts) = code ts"
| "token_code (Bare s) = None"

section \<open>Encodings of the runtime\<close>

text \<open>\<^verbatim>\<open>new Buffer(s).toString('base64')\<close>: RFC 4648 with padding, on the bytes of \<open>s\<close>.\<close>

definition b64char :: "nat \<Rightarrow> char" where
  "b64char n =
     ''ABCDEFGHIJKLMNOPQRSTUVWXYZabcdefghijklmnopqrstuvwxyz0123456789+/'' ! n"

fun base64_bytes :: "nat list \<Rightarrow> string" where
  "base64_bytes [] = []"
| "base64_bytes [a] =
     [b64char (a div 4), b64char ((a mod 4) * 16), CHR ''='', CHR ''='']"
| "base64_bytes [a, b] =
     [b64char (a div 4), b64char ((a mod 4) * 16 + b div 16),
      b64char ((b mod 16) * 4), CHR ''='']"
| "base64_bytes (a # b # c # rest) =
     [b64char (a div 4), b64char ((a mod 4) * 16 + b div 16),
      b64char ((b mod 16) * 4 + c div 64), b64char (c mod 64)] @ base64_bytes rest"

definition base64 :: "string \<Rightarrow> string" where
  "base64 s = base64_bytes (map of_char s)"

text \<open>\<^verbatim>\<open>base64url(buffer)\<close>: the same with \<^verbatim>\<open>-\<close> and \<^verbatim>\<open>_\<close>, and no padding.\<close>

definition base64url :: "string \<Rightarrow> string" where
  "base64url s =
     map (\<lambda>c. if c = CHR ''+'' then CHR ''-'' else if c = CHR ''/'' then CHR ''_'' else c)
       (filter (\<lambda>c. c \<noteq> CHR ''='') (base64 s))"

text \<open>A template literal renders \<^verbatim>\<open>undefined\<close> as the text \<^verbatim>\<open>undefined\<close>.\<close>

definition template :: "string option \<Rightarrow> string" where
  "template v = (case v of None \<Rightarrow> ''undefined'' | Some s \<Rightarrow> s)"

section \<open>\<^verbatim>\<open>BaseClient\<close>: the clock and \<^verbatim>\<open>joseSecret\<close>\<close>

text \<open>\<^verbatim>\<open>Math.ceil(Date.now() / 1000)\<close> and \<^verbatim>\<open>Math.floor(Date.now() / 1000)\<close>.\<close>

definition now_ceil :: "env \<Rightarrow> int" where
  "now_ceil E = - ((- Date_now E) div 1000)"

definition now_floor :: "env \<Rightarrow> int" where
  "now_floor E = Date_now E div 1000"

text \<open>
  \<^verbatim>\<open>joseSecret()\<close>: the cached key, or the client secret imported as an \<^verbatim>\<open>oct\<close> key and
  cached. \<^verbatim>\<open>new Buffer(undefined)\<close> throws.
\<close>

definition joseSecret :: "env \<Rightarrow> client \<Rightarrow> state \<Rightarrow> state \<times> (error + jwk)" where
  "joseSecret E c st =
     (case jose_secret st of
        Some k \<Rightarrow> (st, Inr k)
      | None \<Rightarrow>
          (case client_secret c of
             None \<Rightarrow> (st, Inl (TypeError ''First argument must be a string, Buffer, ArrayBuffer, Array, or array-like object.''))
           | Some s \<Rightarrow>
               (case JWK_asKey E (base64url s) of
                  Inl e \<Rightarrow> (st, Inl e)
                | Inr k \<Rightarrow> (st\<lparr>jose_secret := Some k\<rparr>, Inr k))))"

section \<open>\<^verbatim>\<open>validateIdToken\<close>\<close>

text \<open>The token string: \<^verbatim>\<open>String(idToken)\<close>, after the \<^verbatim>\<open>TokenSet\<close> branch.\<close>

fun id_token_string :: "token \<Rightarrow> error + string" where
  "id_token_string (TokenSet ts) =
     (case id_token ts of
        None \<Rightarrow> Inl (Error ''id_token not present in TokenSet'')
      | Some s \<Rightarrow> if s = [] then Inl (Error ''id_token not present in TokenSet'') else Inr s)"
| "id_token_string (Bare s) = Inr s"

definition expected_alg :: "client \<Rightarrow> string option \<Rightarrow> string option" where
  "expected_alg c use =
     (if use = Some ''userinfo'' then userinfo_signed_response_alg c
      else id_token_signed_response_alg c)"

definition check_alg :: "env \<Rightarrow> string option \<Rightarrow> jsobj \<Rightarrow> error + unit" where
  "check_alg E expectedAlg h =
     assert_equal E (get_prop h ''alg'') (opt_js expectedAlg) ''unexpected algorithm used''"

definition verifyPresence :: "jsobj \<Rightarrow> string \<Rightarrow> error + unit" where
  "verifyPresence p k =
     (if get_prop p k = JUndefined then Inl (Error (''missing required JWT property '' @ k))
      else Inr ())"

definition check_presence :: "jsobj \<Rightarrow> error + unit" where
  "check_presence p =
     first_failure (map (verifyPresence p) [''iss'', ''sub'', ''aud'', ''exp'', ''iat''])"

definition check_iss :: "env \<Rightarrow> client \<Rightarrow> jsobj \<Rightarrow> error + unit" where
  "check_iss E c p =
     assert_equal E (opt_js (issuer (client_issuer c))) (get_prop p ''iss'') ''unexpected iss value''"

definition check_iat :: "int \<Rightarrow> jsobj \<Rightarrow> error + unit" where
  "check_iat now p =
     first_failure
       [assert_ok (is_number (get_prop p ''iat'')) ''iat is not a number'',
        assert_ok (num_le (get_prop p ''iat'') now) ''id_token issued in the future'']"

definition check_nbf :: "int \<Rightarrow> jsobj \<Rightarrow> error + unit" where
  "check_nbf now p =
     (if get_prop p ''nbf'' \<noteq> JUndefined then
        first_failure
          [assert_ok (is_number (get_prop p ''nbf'')) ''nbf is not a number'',
           assert_ok (num_le (get_prop p ''nbf'') now) ''id_token not active yet'']
      else Inr ())"

text \<open>
  The guard is \<^verbatim>\<open>payloadObject.nonce || (nonce !== undefined || nonce !== null)\<close>, with
  strict inequalities.
\<close>

definition check_nonce :: "env \<Rightarrow> jsval \<Rightarrow> jsobj \<Rightarrow> error + unit" where
  "check_nonce E nonce p =
     (if truthy (get_prop p ''nonce'') \<or> (nonce \<noteq> JUndefined \<or> nonce \<noteq> JNull) then
        assert_equal E (get_prop p ''nonce'') nonce ''nonce mismatch''
      else Inr ())"

definition check_exp :: "int \<Rightarrow> jsobj \<Rightarrow> error + unit" where
  "check_exp now p =
     first_failure
       [assert_ok (is_number (get_prop p ''exp'')) ''exp is not a number'',
        assert_ok (num_gt (get_prop p ''exp'') now) ''id_token expired'']"

definition check_azp :: "env \<Rightarrow> client \<Rightarrow> jsobj \<Rightarrow> error + unit" where
  "check_azp E c p =
     (if get_prop p ''azp'' \<noteq> JUndefined then
        assert_equal E (opt_js (client_id c)) (get_prop p ''azp'') ''azp must be the client_id''
      else Inr ())"

text \<open>
  The audience after \<^verbatim>\<open>if (!Array.isArray(payloadObject.aud)) payloadObject.aud =
  [payloadObject.aud]\<close>.
\<close>

fun normalized_aud :: "jsval \<Rightarrow> jsval list" where
  "normalized_aud (JArr xs) = xs"
| "normalized_aud v = [v]"

text \<open>\<^verbatim>\<open>indexOf\<close> compares with \<^verbatim>\<open>===\<close>; the client id is a string or \<^verbatim>\<open>undefined\<close>.\<close>

definition check_aud :: "client \<Rightarrow> jsobj \<Rightarrow> error + unit" where
  "check_aud c p =
     (if isArray (get_prop p ''aud'') \<and> length (normalized_aud (get_prop p ''aud'')) > 1
         \<and> \<not> truthy (get_prop p ''azp'')
      then Inl (Error ''missing required JWT property azp'')
      else assert_ok (opt_js (client_id c) \<in> set (normalized_aud (get_prop p ''aud'')))
             ''aud is missing the client_id'')"

definition check_at_hash :: "env \<Rightarrow> token \<Rightarrow> jsobj \<Rightarrow> jsobj \<Rightarrow> error + unit" where
  "check_at_hash E tok h p =
     (if truthy (get_prop p ''at_hash'') then
        (case tokenHash E (token_access_token tok) (get_prop h ''alg'') of
           Inl e \<Rightarrow> Inl e
         | Inr hash \<Rightarrow> assert_equal E (get_prop p ''at_hash'') (JStr hash) ''at_hash mismatch'')
      else Inr ())"

definition check_c_hash :: "env \<Rightarrow> token \<Rightarrow> jsobj \<Rightarrow> jsobj \<Rightarrow> error + unit" where
  "check_c_hash E tok h p =
     (if truthy (get_prop p ''c_hash'') then
        (case tokenHash E (token_code tok) (get_prop h ''alg'') of
           Inl e \<Rightarrow> Inl e
         | Inr hash \<Rightarrow> assert_equal E (get_prop p ''c_hash'') (JStr hash) ''c_hash mismatch'')
      else Inr ())"

text \<open>The checks between the parsing and the signature, in the order of the source.\<close>

definition claim_checks ::
  "env \<Rightarrow> client \<Rightarrow> token \<Rightarrow> jsval \<Rightarrow> string option \<Rightarrow> jsobj \<Rightarrow> jsobj \<Rightarrow> (error + unit) list" where
  "claim_checks E c tok nonce use h p =
     [check_alg E (expected_alg c use) h,
      check_presence p,
      check_iss E c p,
      check_iat (now_ceil E) p,
      check_nbf (now_ceil E) p,
      check_nonce E nonce p,
      check_exp (now_ceil E) p,
      check_azp E c p,
      check_aud c p,
      check_at_hash E tok h p,
      check_c_hash E tok h p]"

text \<open>
  The end of \<^verbatim>\<open>validateIdToken\<close>: nothing for \<^verbatim>\<open>alg === 'none'\<close>; otherwise the key (the
  client secret for an \<^verbatim>\<open>HS\<close> algorithm, the issuer's key for the header otherwise) and
  the verification. \<^verbatim>\<open>startsWith\<close> on a value that is not a string throws.
\<close>

definition verify_signature ::
  "env \<Rightarrow> client \<Rightarrow> state \<Rightarrow> jsobj \<Rightarrow> string \<Rightarrow> state \<times> (error + unit)" where
  "verify_signature E c st h idToken =
     (if get_prop h ''alg'' = JStr ''none'' then (st, Inr ())
      else
        (case get_prop h ''alg'' of
           JStr a \<Rightarrow>
             (case (if startsWith a ''HS'' then joseSecret E c st else (st, issuer_key E h)) of
                (st', Inl e) \<Rightarrow> (st', Inl e)
              | (st', Inr key) \<Rightarrow> (st', JWS_verify E key idToken))
         | _ \<Rightarrow> (st, Inl (TypeError ''headerObject.alg.startsWith is not a function''))))"

definition validateIdToken ::
  "env \<Rightarrow> client \<Rightarrow> state \<Rightarrow> token \<Rightarrow> jsval \<Rightarrow> string option \<Rightarrow> state \<times> (error + token)" where
  "validateIdToken E c st tok nonce use =
     (case id_token_string tok of
        Inl e \<Rightarrow> (st, Inl e)
      | Inr idToken \<Rightarrow>
          (case decode_json E (part (split_dot idToken) 0) of
             Inl e \<Rightarrow> (st, Inl e)
           | Inr headerObject \<Rightarrow>
               (case decode_json E (part (split_dot idToken) 1) of
                  Inl e \<Rightarrow> (st, Inl e)
                | Inr payloadObject \<Rightarrow>
                    (case first_failure (claim_checks E c tok nonce use headerObject payloadObject) of
                       Inl e \<Rightarrow> (st, Inl e)
                     | Inr u \<Rightarrow>
                         (case verify_signature E c st headerObject idToken of
                            (st', Inl e) \<Rightarrow> (st', Inl e)
                          | (st', Inr v) \<Rightarrow> (st', Inr tok))))))"

section \<open>\<^verbatim>\<open>createSign\<close> and \<^verbatim>\<open>grantAuth\<close>\<close>

text \<open>\<^verbatim>\<open>!alg\<close> on a string that may be absent.\<close>

definition falsy_str :: "string option \<Rightarrow> bool" where
  "falsy_str a = (a = None \<or> a = Some [])"

text \<open>\<^verbatim>\<open>_.find(collection, predicate)\<close>; \<^verbatim>\<open>undefined\<close> on a collection that is \<^verbatim>\<open>undefined\<close>.\<close>

definition lodash_find :: "string list option \<Rightarrow> (string \<Rightarrow> bool) \<Rightarrow> string option" where
  "lodash_find xs P = (case xs of None \<Rightarrow> None | Some ys \<Rightarrow> List.find P ys)"

text \<open>
  What \<^verbatim>\<open>jose.JWS.createSign\<close> returns: the \<^verbatim>\<open>alg\<close> field, the key and the
  \<^verbatim>\<open>reference\<close> option it was made with.
\<close>

datatype signer = Signer "string option" jwk bool

definition createSign :: "env \<Rightarrow> client \<Rightarrow> state \<Rightarrow> state \<times> (error + signer)" where
  "createSign E c st =
     (if token_endpoint_auth_method c = ''client_secret_jwt'' then
        (case joseSecret E c st of
           (st', Inl e) \<Rightarrow> (st', Inl e)
         | (st', Inr key) \<Rightarrow>
             (st', Inr (Signer
                (if falsy_str (token_endpoint_auth_signing_alg c) then
                   lodash_find (token_endpoint_auth_signing_alg_values_supported (client_issuer c))
                     (\<lambda>signAlg. signAlg \<in> set (algorithms_sign key))
                 else token_endpoint_auth_signing_alg c)
                key False)))
      else if token_endpoint_auth_method c = ''private_key_jwt'' then
        (case keystore c of
           None \<Rightarrow> (st, Inl (TypeError ''Cannot read property of undefined''))
         | Some ks \<Rightarrow>
             (let alg =
                (if falsy_str (token_endpoint_auth_signing_alg c) then
                   lodash_find (token_endpoint_auth_signing_alg_values_supported (client_issuer c))
                     (\<lambda>signAlg. signAlg \<in> set (concat (map algorithms_sign (ks_all ks))))
                 else token_endpoint_auth_signing_alg c)
              in case ks_get ks alg of
                   None \<Rightarrow> (st, Inl (AssertionError ''no valid key found''))
                 | Some key \<Rightarrow> (st, Inr (Signer alg key True))))
      else (st, Inl (Error ''createSign only works for _jwt token auth methods'')))"

text \<open>
  What \<^verbatim>\<open>grantAuth\<close> returns: \<^verbatim>\<open>{ body: { ... } }\<close> or \<^verbatim>\<open>{ headers: { ... } }\<close>, with the
  properties in the order of the source.
\<close>

datatype auth = Body jsobj | Headers jsobj

definition grantAuth :: "env \<Rightarrow> client \<Rightarrow> state \<Rightarrow> state \<times> (error + auth)" where
  "grantAuth E c st =
     (if token_endpoint_auth_method c = ''none'' then
        (st, Inl (Error ''client not supposed to use grant authz''))
      else if token_endpoint_auth_method c = ''client_secret_post'' then
        (st, Inr (Body
           [(''client_id'', opt_js (client_id c)),
            (''client_secret'', opt_js (client_secret c))]))
      else if token_endpoint_auth_method c = ''private_key_jwt''
           \<or> token_endpoint_auth_method c = ''client_secret_jwt'' then
        (case createSign E c st of
           (st', Inl e) \<Rightarrow> (st', Inl e)
         | (st', Inr (Signer alg key reference)) \<Rightarrow>
             (case JWS_sign E alg key reference
                     (JSON_stringify E
                        [(''iat'', JNum (of_int (now_floor E))),
                         (''exp'', JNum (of_int (now_floor E + 60))),
                         (''jti'', JStr (uuid E (uuid_calls st'))),
                         (''iss'', opt_js (client_id c)),
                         (''sub'', opt_js (client_id c)),
                         (''aud'', opt_js (token_endpoint (client_issuer c)))]) of
                Inl e \<Rightarrow> (st'\<lparr>uuid_calls := Suc (uuid_calls st')\<rparr>, Inl e)
              | Inr client_assertion \<Rightarrow>
                  (st'\<lparr>uuid_calls := Suc (uuid_calls st')\<rparr>,
                   Inr (Body
                     [(''client_assertion'', JStr client_assertion),
                      (''client_assertion_type'',
                       JStr ''urn:ietf:params:oauth:client-assertion-type:jwt-bearer'')]))))
      else
        (st, Inr (Headers
           [(''Authorization'',
             JStr (''Basic '' @ base64 (template (client_id c) @ '':'' @ template (client_secret c))))])))"

section \<open>The constructor of \<^verbatim>\<open>BaseClient\<close>\<close>

text \<open>
  The metadata handed to the constructor, before the defaults: every property may be
  absent.
\<close>

record metadata =
  m_client_id :: "string option"
  m_client_secret :: "string option"
  m_token_endpoint_auth_method :: "string option"
  m_token_endpoint_auth_signing_alg :: "string option"
  m_id_token_signed_response_alg :: "string option"
  m_userinfo_signed_response_alg :: "string option"

text \<open>
  Modelled from the spec: \<^verbatim>\<open>CLIENT_DEFAULTS\<close> of \<^verbatim>\<open>./consts\<close>, which is not in the source.
  The spec gives the defaults of the two properties the client's checks read:
  \<open>token_endpoint_auth_method\<close> defaults to \<^verbatim>\<open>client_secret_basic\<close> and
  \<open>id_token_signed_response_alg\<close> to \<^verbatim>\<open>RS256\<close>.
\<close>

definition default_token_endpoint_auth_method :: string where
  "default_token_endpoint_auth_method = ''client_secret_basic''"

definition default_id_token_signed_response_alg :: string where
  "default_id_token_signed_response_alg = ''RS256''"

text \<open>\<^verbatim>\<open>_.defaults\<close> fills a property that is \<^verbatim>\<open>undefined\<close>.\<close>

definition with_default :: "string option \<Rightarrow> string \<Rightarrow> string" where
  "with_default v d = (case v of None \<Rightarrow> d | Some x \<Rightarrow> x)"

text \<open>
  The second argument of the constructor: \<^verbatim>\<open>undefined\<close>, a key store, or any other
  value.
\<close>

datatype keystore_arg = KsUndefined | KsStore keystore | KsOther

fun isKeyStore :: "keystore_arg \<Rightarrow> bool" where
  "isKeyStore (KsStore ks) = True"
| "isKeyStore v = False"

fun keystore_of :: "keystore_arg \<Rightarrow> keystore option" where
  "keystore_of (KsStore ks) = Some ks"
| "keystore_of v = None"

definition BaseClient_constructor ::
  "issuer_metadata \<Rightarrow> metadata \<Rightarrow> keystore_arg \<Rightarrow> error + client" where
  "BaseClient_constructor iss m ks =
     (if ks \<noteq> KsUndefined \<and> \<not> isKeyStore ks then
        Inl (AssertionError ''keystore must be an instance of jose.JWK.KeyStore'')
      else if endsWith (with_default (m_token_endpoint_auth_method m) default_token_endpoint_auth_method) ''_jwt''
              \<and> token_endpoint_auth_signing_alg_values_supported iss = None then
        Inl (AssertionError ''token_endpoint_auth_signing_alg_values_supported must be provided on the issuer'')
      else
        Inr \<lparr> client_id = m_client_id m,
              client_secret = m_client_secret m,
              token_endpoint_auth_method =
                with_default (m_token_endpoint_auth_method m) default_token_endpoint_auth_method,
              token_endpoint_auth_signing_alg = m_token_endpoint_auth_signing_alg m,
              id_token_signed_response_alg =
                Some (with_default (m_id_token_signed_response_alg m) default_id_token_signed_response_alg),
              userinfo_signed_response_alg = m_userinfo_signed_response_alg m,
              keystore = keystore_of ks,
              client_issuer = iss \<rparr>)"

section \<open>\<^verbatim>\<open>TokenSet\<close>\<close>

text \<open>
  Modelled from the spec: the class \<^verbatim>\<open>TokenSet\<close> of \<^verbatim>\<open>./token_set\<close> and the clock of
  \<^verbatim>\<open>./unix_timestamp\<close>, which are not in the source (the tests of \<^verbatim>\<open>TokenSet\<close> are). The
  clock is a parameter, in seconds. The spec: on construction, if \<open>expires_in\<close> is
  present, \<open>expires_at = currentUnixTime + expires_in\<close> is computed and stored; if
  \<open>expires_at\<close> is present instead, it is kept. \<open>expires_in\<close> is derived as
  \<open>max(expires_at - currentUnixTime, 0)\<close>, which is also what the tests read after a
  construction from \<open>expires_in\<close>. \<open>expired()\<close> returns
  \<open>expires_at !== undefined && currentUnixTime >= expires_at\<close>.
\<close>

record token_response =
  r_id_token :: "string option"
  r_access_token :: "string option"
  r_code :: "string option"
  r_expires_in :: "int option"
  r_expires_at :: "int option"

definition new_TokenSet :: "int \<Rightarrow> token_response \<Rightarrow> tokenset" where
  "new_TokenSet currentUnixTime r =
     \<lparr> id_token = r_id_token r,
       access_token = r_access_token r,
       code = r_code r,
       expires_at =
         (case r_expires_in r of
            Some n \<Rightarrow> Some (currentUnixTime + n)
          | None \<Rightarrow> r_expires_at r) \<rparr>"

definition expires_in :: "int \<Rightarrow> tokenset \<Rightarrow> int option" where
  "expires_in currentUnixTime ts =
     (case expires_at ts of
        None \<Rightarrow> None
      | Some t \<Rightarrow> Some (max (t - currentUnixTime) 0))"

definition expired :: "int \<Rightarrow> tokenset \<Rightarrow> bool" where
  "expired currentUnixTime ts =
     (case expires_at ts of
        None \<Rightarrow> False
      | Some t \<Rightarrow> currentUnixTime \<ge> t)"

section \<open>The earlier revision of \<^verbatim>\<open>validateIdToken\<close>\<close>

text \<open>
  The source holds two revisions of the client. The definitions above follow the later
  one, which has \<^verbatim>\<open>decryptIdToken\<close>, the \<open>use\<close> argument and the unsigned tokens. In the
  earlier one \<^verbatim>\<open>validateIdToken(token, nonce)\<close> always expects
  \<open>id_token_signed_response_alg\<close>, guards the nonce comparison with
  \<^verbatim>\<open>payloadObject.nonce || nonce !== undefined\<close>, takes a hash only of a field that the
  token has, and verifies the signature of every token. The other checks are the same.
\<close>

definition check_alg_earlier :: "env \<Rightarrow> client \<Rightarrow> jsobj \<Rightarrow> error + unit" where
  "check_alg_earlier E c h =
     assert_equal E (opt_js (id_token_signed_response_alg c)) (get_prop h ''alg'')
       ''unexpected algorithm used''"

definition check_nonce_earlier :: "env \<Rightarrow> jsval \<Rightarrow> jsobj \<Rightarrow> error + unit" where
  "check_nonce_earlier E nonce p =
     (if truthy (get_prop p ''nonce'') \<or> nonce \<noteq> JUndefined then
        assert_equal E (get_prop p ''nonce'') nonce ''nonce mismatch''
      else Inr ())"

definition check_at_hash_earlier :: "env \<Rightarrow> token \<Rightarrow> jsobj \<Rightarrow> jsobj \<Rightarrow> error + unit" where
  "check_at_hash_earlier E tok h p =
     (if truthy (get_prop p ''at_hash'') \<and> \<not> falsy_str (token_access_token tok) then
        (case tokenHash E (token_access_token tok) (get_prop h ''alg'') of
           Inl e \<Rightarrow> Inl e
         | Inr hash \<Rightarrow> assert_equal E (get_prop p ''at_hash'') (JStr hash) ''at_hash mismatch'')
      else Inr ())"

definition check_c_hash_earlier :: "env \<Rightarrow> token \<Rightarrow> jsobj \<Rightarrow> jsobj \<Rightarrow> error + unit" where
  "check_c_hash_earlier E tok h p =
     (if truthy (get_prop p ''c_hash'') \<and> \<not> falsy_str (token_code tok) then
        (case tokenHash E (token_code tok) (get_prop h ''alg'') of
           Inl e \<Rightarrow> Inl e
         | Inr hash \<Rightarrow> assert_equal E (get_prop p ''c_hash'') (JStr hash) ''c_hash mismatch'')
      else Inr ())"

definition claim_checks_earlier ::
  "env \<Rightarrow> client \<Rightarrow> token \<Rightarrow> jsval \<Rightarrow> jsobj \<Rightarrow> jsobj \<Rightarrow> (error + unit) list" where
  "claim_checks_earlier E c tok nonce h p =
     [check_alg_earlier E c h,
      check_presence p,
      check_iss E c p,
      check_iat (now_ceil E) p,
      check_nbf (now_ceil E) p,
      check_nonce_earlier E nonce p,
      check_exp (now_ceil E) p,
      check_azp E c p,
      check_aud c p,
      check_at_hash_earlier E tok h p,
      check_c_hash_earlier E tok h p]"

definition verify_signature_earlier ::
  "env \<Rightarrow> client \<Rightarrow> state \<Rightarrow> jsobj \<Rightarrow> string \<Rightarrow> state \<times> (error + unit)" where
  "verify_signature_earlier E c st h idToken =
     (case get_prop h ''alg'' of
        JStr a \<Rightarrow>
          (case (if startsWith a ''HS'' then joseSecret E c st else (st, issuer_key E h)) of
             (st', Inl e) \<Rightarrow> (st', Inl e)
           | (st', Inr key) \<Rightarrow> (st', JWS_verify E key idToken))
      | _ \<Rightarrow> (st, Inl (TypeError ''headerObject.alg.startsWith is not a function'')))"

definition validateIdToken_earlier ::
  "env \<Rightarrow> client \<Rightarrow> state \<Rightarrow> token \<Rightarrow> jsval \<Rightarrow> state \<times> (error + token)" where
  "validateIdToken_earlier E c st tok nonce =
     (case id_token_string tok of
        Inl e \<Rightarrow> (st, Inl e)
      | Inr idToken \<Rightarrow>
          (case decode_json E (part (split_dot idToken) 0) of
             Inl e \<Rightarrow> (st, Inl e)
           | Inr headerObject \<Rightarrow>
               (case decode_json E (part (split_dot idToken) 1) of
                  Inl e \<Rightarrow> (st, Inl e)
                | Inr payloadObject \<Rightarrow>
                    (case first_failure (claim_checks_earlier E c tok nonce headerObject payloadObject) of
                       Inl e \<Rightarrow> (st, Inl e)
                     | Inr u \<Rightarrow>
                         (case verify_signature_earlier E c st headerObject idToken of
                            (st', Inl e) \<Rightarrow> (st', Inl e)
                          | (st', Inr v) \<Rightarrow> (st', Inr tok))))))"

section \<open>A concrete issuer, client and tokens\<close>

text \<open>
  An environment in which every signature verification fails and every key lookup finds
  nothing, a client that expects unsigned ID Tokens, and a few decoded tokens. The
  clock stands at 1500.5 seconds. The collaborators are stand-ins: the token hash of a
  string is the string reversed, and throws on \<^verbatim>\<open>undefined\<close>; the \<open>n\<close>-th identifier is
  \<open>n + 1\<close> letters \<^verbatim>\<open>u\<close>; a signature is the text behind \<^verbatim>\<open>signed:\<close>; no string is a
  number.
\<close>

definition ex_header :: jsobj where
  "ex_header = [(''alg'', JStr ''none'')]"

definition ex_payload :: "jsobj \<Rightarrow> jsobj" where
  "ex_payload extra =
     extra @
     [(''iss'', JStr ''https://op.example''), (''sub'', JStr ''u''), (''aud'', JStr ''c''),
      (''exp'', JNum 2000), (''iat'', JNum 1000)]"

definition ex_segments :: "(string \<times> jsobj) list" where
  "ex_segments =
     [(''h'', ex_header),
      (''p'', ex_payload []),
      (''late'', ex_payload [(''exp'', JNum 1501), (''iat'', JStr ''1000''), (''nbf'', JNum 1502)]),
      (''nonce'', ex_payload [(''nonce'', JStr ''n1'')]),
      (''multi'', ex_payload [(''aud'', JArr [JStr ''c'', JStr ''d''])]),
      (''other'', ex_payload [(''aud'', JStr ''d''), (''azp'', JStr ''d'')]),
      (''athash'', ex_payload [(''at_hash'', JStr ''ta'')]),
      (''badhash'', ex_payload [(''at_hash'', JStr ''zz'')]),
      (''hashes'', ex_payload [(''at_hash'', JStr ''ta''), (''c_hash'', JStr ''edoc'')]),
      (''nohash'', ex_payload [(''at_hash'', JStr []), (''c_hash'', JStr [])])]"

definition ex_env :: env where
  "ex_env =
     \<lparr> Date_now = 1500500,
       uuid = (\<lambda>n. replicate (Suc n) CHR ''u''),
       StringToNumber = (\<lambda>s. None),
       ObjectToString = (\<lambda>v. ''[object Object]''),
       decode_json = (\<lambda>x. case x of
            None \<Rightarrow> Inl (TypeError ''Cannot read property of undefined'')
          | Some s \<Rightarrow> (case map_of ex_segments s of
               None \<Rightarrow> Inl (Error ''Unexpected token'')
             | Some obj \<Rightarrow> Inr obj)),
       tokenHash = (\<lambda>v alg. case v of
            None \<Rightarrow> Inl (TypeError ''Not a string or buffer'')
          | Some s \<Rightarrow> Inr (rev s)),
       JWK_asKey = (\<lambda>k. Inr (JWK k [''HS256''])),
       issuer_key = (\<lambda>h. Inl (Error ''no key'')),
       JWS_verify = (\<lambda>k s. Inl (Error ''signature verification failed'')),
       JSON_stringify = (\<lambda>obj. concat (map (\<lambda>(k, v). k @ (case v of JStr x \<Rightarrow> ''='' @ x | _ \<Rightarrow> []) @ '';'') obj)),
       JWS_sign = (\<lambda>alg k r text. Inr (''signed:'' @ text)) \<rparr>"

definition ex_issuer :: issuer_metadata where
  "ex_issuer =
     \<lparr> issuer = Some ''https://op.example'',
       token_endpoint = Some ''https://op.example/token'',
       token_endpoint_auth_signing_alg_values_supported = None \<rparr>"

definition ex_client :: client where
  "ex_client =
     \<lparr> client_id = Some ''c'',
       client_secret = Some ''s'',
       token_endpoint_auth_method = ''client_secret_basic'',
       token_endpoint_auth_signing_alg = None,
       id_token_signed_response_alg = Some ''none'',
       userinfo_signed_response_alg = None,
       keystore = None,
       client_issuer = ex_issuer \<rparr>"

definition ex_state :: state where
  "ex_state = \<lparr> jose_secret = None, uuid_calls = 0 \<rparr>"

definition ex_tokenset :: "string \<Rightarrow> tokenset" where
  "ex_tokenset s = \<lparr> id_token = Some s, access_token = Some ''at'', code = None, expires_at = None \<rparr>"

definition ex_jwt_client :: client where
  "ex_jwt_client =
     ex_client
       \<lparr> token_endpoint_auth_method := ''client_secret_jwt'',
         client_issuer := ex_issuer
           \<lparr> token_endpoint_auth_signing_alg_values_supported := Some [''RS256'', ''HS256''] \<rparr> \<rparr>"

definition ex_metadata :: metadata where
  "ex_metadata =
     \<lparr> m_client_id = Some ''c'',
       m_client_secret = Some ''s'',
       m_token_endpoint_auth_method = None,
       m_token_endpoint_auth_signing_alg = None,
       m_id_token_signed_response_alg = None,
       m_userinfo_signed_response_alg = None \<rparr>"

definition ex_response :: "int \<Rightarrow> token_response" where
  "ex_response n =
     \<lparr> r_id_token = None, r_access_token = Some ''at'', r_code = None,
       r_expires_in = Some n, r_expires_at = None \<rparr>"

section \<open>Properties\<close>

lemmas ex_defs = ex_env_def ex_segments_def ex_issuer_def ex_client_def ex_state_def ex_header_def
  ex_payload_def ex_tokenset_def

lemmas run_defs = validateIdToken_def claim_checks_def verify_signature_def check_alg_def
  check_presence_def verifyPresence_def check_iss_def check_iat_def check_nbf_def check_nonce_def
  check_exp_def check_azp_def check_aud_def check_at_hash_def check_c_hash_def
  assert_equal_def assert_ok_def loose_eq_def get_prop_def opt_js_def expected_alg_def now_ceil_def

lemma now_ceil_is_ceiling: "now_ceil E = \<lceil>real_of_int (Date_now E) / 1000\<rceil>"
proof -
  have "\<lceil>real_of_int (Date_now E) / 1000\<rceil> = - \<lfloor>- (real_of_int (Date_now E) / 1000)\<rfloor>"
    by (simp add: ceiling_def)
  also have "- (real_of_int (Date_now E) / 1000) = real_of_int (- Date_now E) / real_of_int 1000"
    by simp
  also have "\<lfloor>real_of_int (- Date_now E) / real_of_int 1000\<rfloor> = (- Date_now E) div 1000"
    by (rule floor_divide_of_int_eq)
  finally show ?thesis by (simp add: now_ceil_def)
qed

lemma now_floor_is_floor: "now_floor E = \<lfloor>real_of_int (Date_now E) / 1000\<rfloor>"
proof -
  have "\<lfloor>real_of_int (Date_now E) / real_of_int 1000\<rfloor> = Date_now E div 1000"
    by (rule floor_divide_of_int_eq)
  then show ?thesis by (simp add: now_floor_def)
qed

lemma first_failure_Inr_iff: "first_failure cs = Inr () \<longleftrightarrow> (\<forall>x\<in>set cs. x = Inr ())"
  by (induction cs rule: first_failure.induct) auto

lemma first_failure_member_Inl:
  "x \<in> set cs \<Longrightarrow> x = Inl e \<Longrightarrow> \<exists>e'. first_failure cs = Inl e'"
  by (induction cs rule: first_failure.induct) auto

lemma first_failure_append:
  "first_failure (xs @ ys) = (case first_failure xs of Inl e \<Rightarrow> Inl e | Inr u \<Rightarrow> first_failure ys)"
  by (induction xs rule: first_failure.induct) auto

lemma validateIdToken_decoded:
  assumes "id_token_string tok = Inr idToken"
    and "decode_json E (part (split_dot idToken) 0) = Inr h"
    and "decode_json E (part (split_dot idToken) 1) = Inr p"
  shows "validateIdToken E c st tok nonce use =
     (case first_failure (claim_checks E c tok nonce use h p) of
        Inl e \<Rightarrow> (st, Inl e)
      | Inr u \<Rightarrow>
          (case verify_signature E c st h idToken of
             (st', Inl e) \<Rightarrow> (st', Inl e)
           | (st', Inr v) \<Rightarrow> (st', Inr tok)))"
  using assms by (simp add: validateIdToken_def)

lemma validateIdToken_check_fails:
  assumes "id_token_string tok = Inr idToken"
    and "decode_json E (part (split_dot idToken) 1) = Inr p"
    and "\<And>h. x h \<in> set (claim_checks E c tok nonce use h p)"
    and "\<And>h. x h = Inl e"
  shows "\<exists>e'. snd (validateIdToken E c st tok nonce use) = Inl e'"
proof (cases "decode_json E (part (split_dot idToken) 0)")
  case (Inl e0)
  then show ?thesis using assms(1) by (simp add: validateIdToken_def)
next
  case (Inr h)
  obtain e' where "first_failure (claim_checks E c tok nonce use h p) = Inl e'"
    using first_failure_member_Inl[OF assms(3) assms(4)] by blast
  then show ?thesis
    using validateIdToken_decoded[OF assms(1) Inr assms(2)] by simp
qed

lemma first_failure_prefix:
  "first_failure (take k cs) = Inr () \<Longrightarrow> k < length cs \<Longrightarrow> cs ! k = Inl e \<Longrightarrow> first_failure cs = Inl e"
proof -
  assume a: "first_failure (take k cs) = Inr ()" and b: "k < length cs" and c: "cs ! k = Inl e"
  have "cs = take k cs @ (cs ! k) # drop (Suc k) cs"
    using b by (simp add: id_take_nth_drop)
  then have "first_failure cs = first_failure (take k cs @ Inl e # drop (Suc k) cs)"
    using c by simp
  then show ?thesis using a by (simp add: first_failure_append)
qed

lemma check_iat_fails:
  "\<not> is_number (get_prop p ''iat'') \<or> (\<exists>n. get_prop p ''iat'' = JNum n \<and> of_int now < n)
   \<Longrightarrow> \<exists>e. check_iat now p = Inl e"
  by (cases "get_prop p ''iat''") (auto simp: check_iat_def assert_ok_def)

lemma check_nbf_fails:
  "get_prop p ''nbf'' \<noteq> JUndefined \<Longrightarrow>
   \<not> is_number (get_prop p ''nbf'') \<or> (\<exists>n. get_prop p ''nbf'' = JNum n \<and> of_int now < n)
   \<Longrightarrow> \<exists>e. check_nbf now p = Inl e"
  by (cases "get_prop p ''nbf''") (auto simp: check_nbf_def assert_ok_def)

lemma check_exp_fails:
  "\<not> is_number (get_prop p ''exp'') \<or> (\<exists>n. get_prop p ''exp'' = JNum n \<and> n \<le> of_int now)
   \<Longrightarrow> \<exists>e. check_exp now p = Inl e"
  by (cases "get_prop p ''exp''") (auto simp: check_exp_def assert_ok_def)

lemma loose_eq_strings: "loose_eq E (JStr a) (JStr b) = (a = b)"
  by (simp add: loose_eq_def)

lemma loose_eq_nullish: "is_nullish a \<Longrightarrow> loose_eq E a b = is_nullish b"
  by (cases a; cases b) (simp_all add: loose_eq_def)

lemma loose_eq_opt_js: "loose_eq E (JStr a) (opt_js x) = (x = Some a)"
  by (cases x) (auto simp: loose_eq_def opt_js_def)

lemma check_nonce_eq:
  "check_nonce E nonce p =
     (if loose_eq E (get_prop p ''nonce'') nonce then Inr () else Inl (AssertionError ''nonce mismatch''))"
  by (auto simp: check_nonce_def assert_equal_def assert_ok_def)

lemma claim_checks_length: "length (claim_checks E c tok nonce use h p) = 11"
  by (simp add: claim_checks_def)

lemma validateIdToken_prefix_fails:
  assumes "id_token_string tok = Inr idToken"
    and "decode_json E (part (split_dot idToken) 0) = Inr h"
    and "decode_json E (part (split_dot idToken) 1) = Inr p"
    and "first_failure (take k (claim_checks E c tok nonce use h p)) = Inr ()"
    and "k < 11"
    and "claim_checks E c tok nonce use h p ! k = Inl e"
  shows "validateIdToken E c st tok nonce use = (st, Inl e)"
proof -
  have "first_failure (claim_checks E c tok nonce use h p) = Inl e"
    using first_failure_prefix[OF assms(4) _ assms(6)] assms(5) by (simp add: claim_checks_length)
  then show ?thesis
    using validateIdToken_decoded[OF assms(1,2,3)] by simp
qed

lemma check_aud_missing_azp:
  "isArray (get_prop p ''aud'') \<Longrightarrow> 1 < length (normalized_aud (get_prop p ''aud''))
   \<Longrightarrow> get_prop p ''azp'' = JUndefined
   \<Longrightarrow> check_aud c p = Inl (Error ''missing required JWT property azp'')"
  by (simp add: check_aud_def)

lemma check_aud_not_member:
  "opt_js (client_id c) \<notin> set (normalized_aud (get_prop p ''aud''))
   \<Longrightarrow> \<exists>e. check_aud c p = Inl e"
  by (simp add: check_aud_def assert_ok_def)

lemma check_azp_mismatch:
  "get_prop p ''azp'' \<noteq> JUndefined \<Longrightarrow> \<not> loose_eq E (opt_js (client_id c)) (get_prop p ''azp'')
   \<Longrightarrow> check_azp E c p = Inl (AssertionError ''azp must be the client_id'')"
  by (simp add: check_azp_def assert_equal_def assert_ok_def)

lemma ToNumber_upd [simp]:
  "ToNumber (E\<lparr>issuer_key := k, JWS_verify := v, JWK_asKey := a\<rparr>) x = ToNumber E x"
  by (cases x) simp_all

lemma ToPrimitive_upd [simp]:
  "ToPrimitive (E\<lparr>issuer_key := k, JWS_verify := v, JWK_asKey := a\<rparr>) x = ToPrimitive E x"
  by (cases x) simp_all

lemma prim_eq_upd [simp]:
  "prim_eq (E\<lparr>issuer_key := k, JWS_verify := v, JWK_asKey := a\<rparr>) x y = prim_eq E x y"
  by (cases x; cases y) simp_all

lemma assert_equal_upd [simp]:
  "assert_equal (E\<lparr>issuer_key := k, JWS_verify := v, JWK_asKey := a\<rparr>) = assert_equal E"
  by (intro ext) (simp add: assert_equal_def loose_eq_def)

lemma check_at_hash_upd [simp]:
  "check_at_hash (E\<lparr>issuer_key := k, JWS_verify := v, JWK_asKey := a\<rparr>) tok h p = check_at_hash E tok h p"
  by (simp add: check_at_hash_def split: sum.split)

lemma check_c_hash_upd [simp]:
  "check_c_hash (E\<lparr>issuer_key := k, JWS_verify := v, JWK_asKey := a\<rparr>) tok h p = check_c_hash E tok h p"
  by (simp add: check_c_hash_def split: sum.split)

lemma claim_checks_upd:
  "claim_checks (E\<lparr>issuer_key := k, JWS_verify := v, JWK_asKey := a\<rparr>) c tok nonce use h p
     = claim_checks E c tok nonce use h p"
  by (simp add: claim_checks_def check_alg_def check_iss_def check_nonce_def check_azp_def
      now_ceil_def)

lemma validateIdToken_none:
  assumes "id_token_string tok = Inr idToken"
    and "decode_json E (part (split_dot idToken) 0) = Inr h"
    and "decode_json E (part (split_dot idToken) 1) = Inr p"
    and "get_prop h ''alg'' = JStr ''none''"
    and "first_failure (claim_checks E c tok nonce use h p) = Inr ()"
  shows "validateIdToken E c st tok nonce use = (st, Inr tok)"
  using assms by (simp add: validateIdToken_def verify_signature_def)

lemma check_at_hash_fails:
  "truthy (get_prop p ''at_hash'') \<Longrightarrow>
   \<not> (\<exists>hash. tokenHash E (token_access_token tok) (get_prop h ''alg'') = Inr hash
        \<and> loose_eq E (get_prop p ''at_hash'') (JStr hash))
   \<Longrightarrow> \<exists>e. check_at_hash E tok h p = Inl e"
  by (cases "tokenHash E (token_access_token tok) (get_prop h ''alg'')")
     (simp_all add: check_at_hash_def assert_equal_def assert_ok_def)

lemma check_c_hash_fails:
  "truthy (get_prop p ''c_hash'') \<Longrightarrow>
   \<not> (\<exists>hash. tokenHash E (token_code tok) (get_prop h ''alg'') = Inr hash
        \<and> loose_eq E (get_prop p ''c_hash'') (JStr hash))
   \<Longrightarrow> \<exists>e. check_c_hash E tok h p = Inl e"
  by (cases "tokenHash E (token_code tok) (get_prop h ''alg'')")
     (simp_all add: check_c_hash_def assert_equal_def assert_ok_def)

lemma validateIdToken_check_fails_h:
  assumes "id_token_string tok = Inr idToken"
    and "decode_json E (part (split_dot idToken) 0) = Inr h"
    and "decode_json E (part (split_dot idToken) 1) = Inr p"
    and "x \<in> set (claim_checks E c tok nonce use h p)"
    and "x = Inl e"
  shows "\<exists>e'. snd (validateIdToken E c st tok nonce use) = Inl e'"
proof -
  obtain e' where "first_failure (claim_checks E c tok nonce use h p) = Inl e'"
    using first_failure_member_Inl[OF assms(4) assms(5)] by blast
  then show ?thesis
    using validateIdToken_decoded[OF assms(1) assms(2) assms(3)] by simp
qed

lemma base64_vectors:
  "base64 '''' = ''''"
  "base64 ''f'' = ''Zg==''"
  "base64 ''fo'' = ''Zm8=''"
  "base64 ''foo'' = ''Zm9v''"
  "base64 ''foob'' = ''Zm9vYg==''"
  "base64 ''fooba'' = ''Zm9vYmE=''"
  "base64 ''foobar'' = ''Zm9vYmFy''"
  "base64 ''c:s'' = ''Yzpz''"
  by (simp_all add: base64_def b64char_def)

lemma joseSecret_uuid_calls: "joseSecret E c st = (st', r) \<Longrightarrow> uuid_calls st' = uuid_calls st"
  by (auto simp: joseSecret_def split: option.splits sum.splits)

lemma createSign_uuid_calls: "createSign E c st = (st', r) \<Longrightarrow> uuid_calls st' = uuid_calls st"
  by (auto simp: createSign_def Let_def dest: joseSecret_uuid_calls
      split: if_splits option.splits sum.splits prod.splits)

lemma grantAuth_jwt:
  assumes "token_endpoint_auth_method c = ''client_secret_jwt''
         \<or> token_endpoint_auth_method c = ''private_key_jwt''"
  shows "grantAuth E c st =
     (case createSign E c st of
        (st', Inl e) \<Rightarrow> (st', Inl e)
      | (st', Inr (Signer alg key reference)) \<Rightarrow>
          (case JWS_sign E alg key reference
                  (JSON_stringify E
                     [(''iat'', JNum (of_int (now_floor E))),
                      (''exp'', JNum (of_int (now_floor E + 60))),
                      (''jti'', JStr (uuid E (uuid_calls st'))),
                      (''iss'', opt_js (client_id c)),
                      (''sub'', opt_js (client_id c)),
                      (''aud'', opt_js (token_endpoint (client_issuer c)))]) of
             Inl e \<Rightarrow> (st'\<lparr>uuid_calls := Suc (uuid_calls st')\<rparr>, Inl e)
           | Inr client_assertion \<Rightarrow>
               (st'\<lparr>uuid_calls := Suc (uuid_calls st')\<rparr>,
                Inr (Body
                  [(''client_assertion'', JStr client_assertion),
                   (''client_assertion_type'',
                    JStr ''urn:ietf:params:oauth:client-assertion-type:jwt-bearer'')]))))"
  using assms by (auto simp: grantAuth_def)

subsection \<open>The nonce\<close>

text \<open>
  Claim C1. For a token whose header and payload decode to \<open>h\<close> and \<open>p\<close>: when the
  payload has a \<open>nonce\<close> claim or the caller supplied a nonce (one that is neither
  \<^verbatim>\<open>undefined\<close> nor \<^verbatim>\<open>null\<close>), the validation fails unless the payload's nonce and the
  caller's are equal, and the failure is the nonce mismatch when the five checks before
  it pass. When the payload has no nonce and the caller's is \<^verbatim>\<open>undefined\<close> or \<^verbatim>\<open>null\<close>,
  the nonce check passes. Equal is the equality of \<^verbatim>\<open>assert.equal\<close>; on two strings it
  is the equality of strings.
\<close>

theorem validateIdToken_nonce:
  assumes tok: "id_token_string tok = Inr idToken"
    and h: "decode_json E (part (split_dot idToken) 0) = Inr h"
    and p: "decode_json E (part (split_dot idToken) 1) = Inr p"
  shows "((get_prop p ''nonce'' \<noteq> JUndefined \<or> \<not> is_nullish nonce)
           \<and> \<not> loose_eq E (get_prop p ''nonce'') nonce
         \<longrightarrow> (\<exists>e. snd (validateIdToken E c st tok nonce use) = Inl e)
           \<and> (first_failure (take 5 (claim_checks E c tok nonce use h p)) = Inr ()
              \<longrightarrow> validateIdToken E c st tok nonce use = (st, Inl (AssertionError ''nonce mismatch''))))
       \<and> (get_prop p ''nonce'' = JUndefined \<and> is_nullish nonce \<longrightarrow> check_nonce E nonce p = Inr ())
       \<and> (\<forall>a b. loose_eq E (JStr a) (JStr b) = (a = b))"
proof (intro conjI impI allI)
  assume a: "(get_prop p ''nonce'' \<noteq> JUndefined \<or> \<not> is_nullish nonce)
           \<and> \<not> loose_eq E (get_prop p ''nonce'') nonce"
  then have ne: "check_nonce E nonce p = Inl (AssertionError ''nonce mismatch'')"
    by (simp add: check_nonce_eq)
  show "\<exists>e. snd (validateIdToken E c st tok nonce use) = Inl e"
    using validateIdToken_check_fails[OF tok p, where x = "\<lambda>h. check_nonce E nonce p"
        and e = "AssertionError ''nonce mismatch''"] ne
    by (simp add: claim_checks_def)
  assume pre: "first_failure (take 5 (claim_checks E c tok nonce use h p)) = Inr ()"
  have "claim_checks E c tok nonce use h p ! 5 = Inl (AssertionError ''nonce mismatch'')"
    using ne by (simp add: claim_checks_def)
  then show "validateIdToken E c st tok nonce use = (st, Inl (AssertionError ''nonce mismatch''))"
    using validateIdToken_prefix_fails[OF tok h p pre] by simp
next
  assume "get_prop p ''nonce'' = JUndefined \<and> is_nullish nonce"
  then show "check_nonce E nonce p = Inr ()"
    by (simp add: check_nonce_eq loose_eq_nullish)
next
  fix a b show "loose_eq E (JStr a) (JStr b) = (a = b)"
    by (rule loose_eq_strings)
qed

theorem validateIdToken_nonce_witness:
  "validateIdToken ex_env ex_client ex_state (Bare ''h.nonce.'') (JStr ''n2'') None
     = (ex_state, Inl (AssertionError ''nonce mismatch''))
   \<and> check_nonce ex_env JNull (ex_payload []) = Inr ()
   \<and> validateIdToken ex_env ex_client ex_state (Bare ''h.p.'') JNull None
     = (ex_state, Inr (Bare ''h.p.''))"
proof -
  let ?p = "ex_payload [(''nonce'', JStr ''n1'')]"
  have tok: "id_token_string (Bare ''h.nonce.'') = Inr ''h.nonce.''"
    by simp
  have h: "decode_json ex_env (part (split_dot ''h.nonce.'') 0) = Inr ex_header"
    by (simp add: ex_env_def ex_segments_def)
  have p: "decode_json ex_env (part (split_dot ''h.nonce.'') 1) = Inr ?p"
    by (simp add: ex_env_def ex_segments_def)
  have n: "get_prop ?p ''nonce'' = JStr ''n1''"
    by (simp add: get_prop_def ex_payload_def)
  have pre: "first_failure (take 5 (claim_checks ex_env ex_client (Bare ''h.nonce.'') (JStr ''n2'') None ex_header ?p)) = Inr ()"
    by (simp add: run_defs ex_defs)
  have 1: "validateIdToken ex_env ex_client ex_state (Bare ''h.nonce.'') (JStr ''n2'') None
     = (ex_state, Inl (AssertionError ''nonce mismatch''))"
    using validateIdToken_nonce [OF tok h p, of "JStr ''n2''" ex_client ex_state None] n pre
    by (simp add: loose_eq_def)
  have tok': "id_token_string (Bare ''h.p.'') = Inr ''h.p.''"
    by simp
  have h': "decode_json ex_env (part (split_dot ''h.p.'') 0) = Inr ex_header"
    by (simp add: ex_env_def ex_segments_def)
  have p': "decode_json ex_env (part (split_dot ''h.p.'') 1) = Inr (ex_payload [])"
    by (simp add: ex_env_def ex_segments_def)
  have "get_prop (ex_payload []) ''nonce'' = JUndefined"
    by (simp add: get_prop_def ex_payload_def)
  then have 2: "check_nonce ex_env JNull (ex_payload []) = Inr ()"
    using validateIdToken_nonce [OF tok' h' p', of JNull ex_client ex_state None]
    by simp
  have 3: "validateIdToken ex_env ex_client ex_state (Bare ''h.p.'') JNull None
     = (ex_state, Inr (Bare ''h.p.''))"
    by (simp add: run_defs ex_defs)
  from 1 2 3 show ?thesis by blast
qed

subsection \<open>Unsigned tokens\<close>

text \<open>
  Claim C2. A token whose header has \<open>alg\<close> equal to the string \<^verbatim>\<open>none\<close> and that passes
  all the claim checks is returned unchanged, and the client's state is unchanged. The
  first check makes the expected algorithm of the use \<^verbatim>\<open>none\<close> as well. No key is
  imported or looked up and no signature is verified: the result is the same whatever
  \<^verbatim>\<open>issuer.key\<close>, \<^verbatim>\<open>jose.JWK.asKey\<close> and \<^verbatim>\<open>jose.JWS.createVerify(key).verify\<close> would do.
\<close>

theorem validateIdToken_unsigned:
  assumes tok: "id_token_string tok = Inr idToken"
    and h: "decode_json E (part (split_dot idToken) 0) = Inr h"
    and p: "decode_json E (part (split_dot idToken) 1) = Inr p"
    and alg: "get_prop h ''alg'' = JStr ''none''"
    and checks: "first_failure (claim_checks E c tok nonce use h p) = Inr ()"
  shows "validateIdToken E c st tok nonce use = (st, Inr tok)
       \<and> expected_alg c use = Some ''none''
       \<and> (\<forall>k v a. validateIdToken (E\<lparr>issuer_key := k, JWS_verify := v, JWK_asKey := a\<rparr>)
                     c st tok nonce use = (st, Inr tok))"
proof (intro conjI allI)
  show "validateIdToken E c st tok nonce use = (st, Inr tok)"
    by (rule validateIdToken_none[OF tok h p alg checks])
next
  have "check_alg E (expected_alg c use) h \<in> set (claim_checks E c tok nonce use h p)"
    by (simp add: claim_checks_def)
  then have "check_alg E (expected_alg c use) h = Inr ()"
    using checks by (simp add: first_failure_Inr_iff)
  then have "loose_eq E (JStr ''none'') (opt_js (expected_alg c use))"
    using alg by (simp add: check_alg_def assert_equal_def assert_ok_def split: if_splits)
  then show "expected_alg c use = Some ''none''"
    by (simp add: loose_eq_opt_js)
next
  fix k v a
  let ?E = "E\<lparr>issuer_key := k, JWS_verify := v, JWK_asKey := a\<rparr>"
  have h': "decode_json ?E (part (split_dot idToken) 0) = Inr h"
    using h by simp
  have p': "decode_json ?E (part (split_dot idToken) 1) = Inr p"
    using p by simp
  have checks': "first_failure (claim_checks ?E c tok nonce use h p) = Inr ()"
    using checks by (simp add: claim_checks_upd)
  show "validateIdToken ?E c st tok nonce use = (st, Inr tok)"
    by (rule validateIdToken_none[OF tok h' p' alg checks'])
qed

theorem validateIdToken_unsigned_witness:
  "validateIdToken ex_env ex_client ex_state (TokenSet (ex_tokenset ''h.athash.'')) JUndefined (Some ''id_token'')
     = (ex_state, Inr (TokenSet (ex_tokenset ''h.athash.'')))
   \<and> JWS_verify ex_env (JWK ''k'' []) ''h.athash.'' = Inl (Error ''signature verification failed'')
   \<and> expected_alg ex_client (Some ''id_token'') = Some ''none''"
proof -
  let ?t = "TokenSet (ex_tokenset ''h.athash.'')"
  let ?p = "ex_payload [(''at_hash'', JStr ''ta'')]"
  have tok: "id_token_string ?t = Inr ''h.athash.''"
    by (simp add: ex_tokenset_def)
  have h: "decode_json ex_env (part (split_dot ''h.athash.'') 0) = Inr ex_header"
    by (simp add: ex_env_def ex_segments_def)
  have p: "decode_json ex_env (part (split_dot ''h.athash.'') 1) = Inr ?p"
    by (simp add: ex_env_def ex_segments_def)
  have alg: "get_prop ex_header ''alg'' = JStr ''none''"
    by (simp add: get_prop_def ex_header_def)
  have checks: "first_failure (claim_checks ex_env ex_client ?t JUndefined (Some ''id_token'') ex_header ?p) = Inr ()"
    by (simp add: run_defs ex_defs)
  have v: "JWS_verify ex_env (JWK ''k'' []) ''h.athash.'' = Inl (Error ''signature verification failed'')"
    by (simp add: ex_env_def)
  show ?thesis
    using validateIdToken_unsigned [OF tok h p alg checks, of ex_state] v by simp
qed

subsection \<open>The hashes of the access token and of the code\<close>

text \<open>
  Claim C3, as amended. For a token whose payload has a truthy \<open>at_hash\<close> claim (any
  value but the empty string, \<^verbatim>\<open>0\<close>, \<^verbatim>\<open>false\<close> and \<^verbatim>\<open>null\<close>), the validation fails unless
  \<open>at_hash\<close> equals the token hash of the token's \<open>access_token\<close> under the header's
  algorithm; for a payload that has a truthy \<open>c_hash\<close> it fails unless \<open>c_hash\<close> equals
  the token hash of the token's \<open>code\<close>. The hash is taken of the field whether or not
  the token has it (of \<^verbatim>\<open>undefined\<close> when it has not). An \<open>at_hash\<close> or \<open>c_hash\<close> that is
  falsy passes its check.
\<close>

theorem validateIdToken_hashes:
  assumes tok: "id_token_string tok = Inr idToken"
    and h: "decode_json E (part (split_dot idToken) 0) = Inr h"
    and p: "decode_json E (part (split_dot idToken) 1) = Inr p"
  shows "(truthy (get_prop p ''at_hash'')
          \<and> \<not> (\<exists>hash. tokenHash E (token_access_token tok) (get_prop h ''alg'') = Inr hash
                  \<and> loose_eq E (get_prop p ''at_hash'') (JStr hash))
         \<longrightarrow> (\<exists>e. snd (validateIdToken E c st tok nonce use) = Inl e))
       \<and> (truthy (get_prop p ''c_hash'')
          \<and> \<not> (\<exists>hash. tokenHash E (token_code tok) (get_prop h ''alg'') = Inr hash
                  \<and> loose_eq E (get_prop p ''c_hash'') (JStr hash))
         \<longrightarrow> (\<exists>e. snd (validateIdToken E c st tok nonce use) = Inl e))
       \<and> (\<not> truthy (get_prop p ''at_hash'') \<longrightarrow> check_at_hash E tok h p = Inr ())
       \<and> (\<not> truthy (get_prop p ''c_hash'') \<longrightarrow> check_c_hash E tok h p = Inr ())"
proof (intro conjI impI)
  assume "truthy (get_prop p ''at_hash'')
          \<and> \<not> (\<exists>hash. tokenHash E (token_access_token tok) (get_prop h ''alg'') = Inr hash
                  \<and> loose_eq E (get_prop p ''at_hash'') (JStr hash))"
  then obtain e where "check_at_hash E tok h p = Inl e"
    using check_at_hash_fails by blast
  then show "\<exists>e. snd (validateIdToken E c st tok nonce use) = Inl e"
    using validateIdToken_check_fails_h[OF tok h p, where x = "check_at_hash E tok h p" and e = e]
    by (simp add: claim_checks_def)
next
  assume "truthy (get_prop p ''c_hash'')
          \<and> \<not> (\<exists>hash. tokenHash E (token_code tok) (get_prop h ''alg'') = Inr hash
                  \<and> loose_eq E (get_prop p ''c_hash'') (JStr hash))"
  then obtain e where "check_c_hash E tok h p = Inl e"
    using check_c_hash_fails by blast
  then show "\<exists>e. snd (validateIdToken E c st tok nonce use) = Inl e"
    using validateIdToken_check_fails_h[OF tok h p, where x = "check_c_hash E tok h p" and e = e]
    by (simp add: claim_checks_def)
next
  assume "\<not> truthy (get_prop p ''at_hash'')"
  then show "check_at_hash E tok h p = Inr ()"
    by (simp add: check_at_hash_def)
next
  assume "\<not> truthy (get_prop p ''c_hash'')"
  then show "check_c_hash E tok h p = Inr ()"
    by (simp add: check_c_hash_def)
qed

theorem validateIdToken_hashes_witness:
  "(\<exists>e. snd (validateIdToken ex_env ex_client ex_state (TokenSet (ex_tokenset ''h.badhash.'')) JUndefined None) = Inl e)
   \<and> token_code (TokenSet (ex_tokenset ''h.hashes.'')) = None
   \<and> (\<exists>e. snd (validateIdToken ex_env ex_client ex_state (TokenSet (ex_tokenset ''h.hashes.'')) JUndefined None) = Inl e)
   \<and> check_at_hash ex_env (TokenSet (ex_tokenset ''h.p.'')) ex_header (ex_payload []) = Inr ()
   \<and> check_c_hash ex_env (TokenSet (ex_tokenset ''h.p.'')) ex_header (ex_payload []) = Inr ()"
proof -
  let ?b = "ex_payload [(''at_hash'', JStr ''zz'')]"
  let ?hs = "ex_payload [(''at_hash'', JStr ''ta''), (''c_hash'', JStr ''edoc'')]"
  have alg: "get_prop ex_header ''alg'' = JStr ''none''"
    by (simp add: get_prop_def ex_header_def)
  have tok: "id_token_string (TokenSet (ex_tokenset ''h.badhash.'')) = Inr ''h.badhash.''"
    by (simp add: ex_tokenset_def)
  have h: "decode_json ex_env (part (split_dot ''h.badhash.'') 0) = Inr ex_header"
    by (simp add: ex_env_def ex_segments_def)
  have p: "decode_json ex_env (part (split_dot ''h.badhash.'') 1) = Inr ?b"
    by (simp add: ex_env_def ex_segments_def)
  have at: "get_prop ?b ''at_hash'' = JStr ''zz''"
    by (simp add: get_prop_def ex_payload_def)
  have hash: "tokenHash ex_env (token_access_token (TokenSet (ex_tokenset ''h.badhash.''))) (JStr ''none'') = Inr ''ta''"
    by (simp add: ex_env_def ex_tokenset_def)
  have 1: "\<exists>e. snd (validateIdToken ex_env ex_client ex_state (TokenSet (ex_tokenset ''h.badhash.'')) JUndefined None) = Inl e"
    using validateIdToken_hashes [OF tok h p, of ex_client ex_state JUndefined None] at hash alg
    by (simp add: loose_eq_def)
  have tok': "id_token_string (TokenSet (ex_tokenset ''h.hashes.'')) = Inr ''h.hashes.''"
    by (simp add: ex_tokenset_def)
  have h': "decode_json ex_env (part (split_dot ''h.hashes.'') 0) = Inr ex_header"
    by (simp add: ex_env_def ex_segments_def)
  have p': "decode_json ex_env (part (split_dot ''h.hashes.'') 1) = Inr ?hs"
    by (simp add: ex_env_def ex_segments_def)
  have c: "get_prop ?hs ''c_hash'' = JStr ''edoc''"
    by (simp add: get_prop_def ex_payload_def)
  have code: "token_code (TokenSet (ex_tokenset ''h.hashes.'')) = None"
    by (simp add: ex_tokenset_def)
  have nohash: "tokenHash ex_env None (JStr ''none'') = Inl (TypeError ''Not a string or buffer'')"
    by (simp add: ex_env_def)
  have 2: "\<exists>e. snd (validateIdToken ex_env ex_client ex_state (TokenSet (ex_tokenset ''h.hashes.'')) JUndefined None) = Inl e"
    using validateIdToken_hashes [OF tok' h' p', of ex_client ex_state JUndefined None] c code nohash alg
    by simp
  have tok0: "id_token_string (TokenSet (ex_tokenset ''h.p.'')) = Inr ''h.p.''"
    by (simp add: ex_tokenset_def)
  have h0: "decode_json ex_env (part (split_dot ''h.p.'') 0) = Inr ex_header"
    by (simp add: ex_env_def ex_segments_def)
  have p0: "decode_json ex_env (part (split_dot ''h.p.'') 1) = Inr (ex_payload [])"
    by (simp add: ex_env_def ex_segments_def)
  have u: "get_prop (ex_payload []) ''at_hash'' = JUndefined" "get_prop (ex_payload []) ''c_hash'' = JUndefined"
    by (simp_all add: get_prop_def ex_payload_def)
  have 3: "check_at_hash ex_env (TokenSet (ex_tokenset ''h.p.'')) ex_header (ex_payload []) = Inr ()
    \<and> check_c_hash ex_env (TokenSet (ex_tokenset ''h.p.'')) ex_header (ex_payload []) = Inr ()"
    using validateIdToken_hashes [OF tok0 h0 p0, of ex_client ex_state JUndefined None] u
    by simp
  from 1 2 3 code show ?thesis by blast
qed

text \<open>
  The claim as first stated, for every payload that contains an \<open>at_hash\<close> or a \<open>c_hash\<close>,
  does not hold: a token whose \<open>at_hash\<close> and \<open>c_hash\<close> are the empty string is accepted,
  though the hash of its access token is not empty and the hash of its absent code
  throws.
\<close>

theorem validateIdToken_hashes_counterexample:
  "get_prop (ex_payload [(''at_hash'', JStr []), (''c_hash'', JStr [])]) ''at_hash'' = JStr []
   \<and> get_prop (ex_payload [(''at_hash'', JStr []), (''c_hash'', JStr [])]) ''c_hash'' = JStr []
   \<and> decode_json ex_env (part (split_dot ''h.nohash.'') 1)
       = Inr (ex_payload [(''at_hash'', JStr []), (''c_hash'', JStr [])])
   \<and> tokenHash ex_env (token_access_token (TokenSet (ex_tokenset ''h.nohash.''))) (JStr ''none'') = Inr ''ta''
   \<and> \<not> loose_eq ex_env (JStr []) (JStr ''ta'')
   \<and> tokenHash ex_env (token_code (TokenSet (ex_tokenset ''h.nohash.''))) (JStr ''none'')
       = Inl (TypeError ''Not a string or buffer'')
   \<and> validateIdToken ex_env ex_client ex_state (TokenSet (ex_tokenset ''h.nohash.'')) JUndefined None
       = (ex_state, Inr (TokenSet (ex_tokenset ''h.nohash.'')))"
  by (simp add: run_defs ex_defs)

subsection \<open>Audience and authorized party\<close>

text \<open>
  Claim C4. An \<open>aud\<close> that is not an array is normalized to the list of that one value.
  An \<open>aud\<close> array of more than one element with no \<open>azp\<close> claim makes the validation
  fail, with the missing \<open>azp\<close> error when the eight checks before it pass. The
  validation fails unless the client id is an element of the normalized audience. A
  present \<open>azp\<close> that is not equal to the client id makes the validation fail.
\<close>

theorem validateIdToken_audience:
  assumes tok: "id_token_string tok = Inr idToken"
    and h: "decode_json E (part (split_dot idToken) 0) = Inr h"
    and p: "decode_json E (part (split_dot idToken) 1) = Inr p"
  shows "(\<not> isArray (get_prop p ''aud'') \<longrightarrow> normalized_aud (get_prop p ''aud'') = [get_prop p ''aud''])
       \<and> (isArray (get_prop p ''aud'') \<and> 1 < length (normalized_aud (get_prop p ''aud''))
            \<and> get_prop p ''azp'' = JUndefined
          \<longrightarrow> (\<exists>e. snd (validateIdToken E c st tok nonce use) = Inl e)
            \<and> (first_failure (take 8 (claim_checks E c tok nonce use h p)) = Inr ()
               \<longrightarrow> validateIdToken E c st tok nonce use
                    = (st, Inl (Error ''missing required JWT property azp''))))
       \<and> (opt_js (client_id c) \<notin> set (normalized_aud (get_prop p ''aud''))
          \<longrightarrow> (\<exists>e. snd (validateIdToken E c st tok nonce use) = Inl e))
       \<and> (get_prop p ''azp'' \<noteq> JUndefined \<and> \<not> loose_eq E (opt_js (client_id c)) (get_prop p ''azp'')
          \<longrightarrow> (\<exists>e. snd (validateIdToken E c st tok nonce use) = Inl e))"
proof (intro conjI impI)
  assume "\<not> isArray (get_prop p ''aud'')"
  then show "normalized_aud (get_prop p ''aud'') = [get_prop p ''aud'']"
    by (cases "get_prop p ''aud''") simp_all
next
  assume a: "isArray (get_prop p ''aud'') \<and> 1 < length (normalized_aud (get_prop p ''aud''))
            \<and> get_prop p ''azp'' = JUndefined"
  then have m: "check_aud c p = Inl (Error ''missing required JWT property azp'')"
    by (simp add: check_aud_missing_azp)
  show "\<exists>e. snd (validateIdToken E c st tok nonce use) = Inl e"
    using validateIdToken_check_fails[OF tok p, where x = "\<lambda>h. check_aud c p"
        and e = "Error ''missing required JWT property azp''"] m
    by (simp add: claim_checks_def)
  assume pre: "first_failure (take 8 (claim_checks E c tok nonce use h p)) = Inr ()"
  have "claim_checks E c tok nonce use h p ! 8 = Inl (Error ''missing required JWT property azp'')"
    using m by (simp add: claim_checks_def)
  then show "validateIdToken E c st tok nonce use = (st, Inl (Error ''missing required JWT property azp''))"
    using validateIdToken_prefix_fails[OF tok h p pre] by simp
next
  assume "opt_js (client_id c) \<notin> set (normalized_aud (get_prop p ''aud''))"
  then obtain e where "check_aud c p = Inl e"
    using check_aud_not_member by blast
  then show "\<exists>e. snd (validateIdToken E c st tok nonce use) = Inl e"
    using validateIdToken_check_fails[OF tok p, where x = "\<lambda>h. check_aud c p" and e = e]
    by (simp add: claim_checks_def)
next
  assume "get_prop p ''azp'' \<noteq> JUndefined \<and> \<not> loose_eq E (opt_js (client_id c)) (get_prop p ''azp'')"
  then have "check_azp E c p = Inl (AssertionError ''azp must be the client_id'')"
    by (simp add: check_azp_mismatch)
  then show "\<exists>e. snd (validateIdToken E c st tok nonce use) = Inl e"
    using validateIdToken_check_fails[OF tok p, where x = "\<lambda>h. check_azp E c p"
        and e = "AssertionError ''azp must be the client_id''"]
    by (simp add: claim_checks_def)
qed

theorem validateIdToken_audience_witness:
  "normalized_aud (get_prop (ex_payload []) ''aud'') = [JStr ''c'']
   \<and> validateIdToken ex_env ex_client ex_state (Bare ''h.multi.'') JUndefined None
       = (ex_state, Inl (Error ''missing required JWT property azp''))
   \<and> (\<exists>e. snd (validateIdToken ex_env ex_client ex_state (Bare ''h.other.'') JUndefined None) = Inl e)"
proof -
  let ?m = "ex_payload [(''aud'', JArr [JStr ''c'', JStr ''d''])]"
  let ?o = "ex_payload [(''aud'', JStr ''d''), (''azp'', JStr ''d'')]"
  have tok0: "id_token_string (Bare ''h.p.'') = Inr ''h.p.''"
    by simp
  have h0: "decode_json ex_env (part (split_dot ''h.p.'') 0) = Inr ex_header"
    by (simp add: ex_env_def ex_segments_def)
  have p0: "decode_json ex_env (part (split_dot ''h.p.'') 1) = Inr (ex_payload [])"
    by (simp add: ex_env_def ex_segments_def)
  have aud0: "get_prop (ex_payload []) ''aud'' = JStr ''c''"
    by (simp add: get_prop_def ex_payload_def)
  have 1: "normalized_aud (get_prop (ex_payload []) ''aud'') = [JStr ''c'']"
    using validateIdToken_audience [OF tok0 h0 p0, of ex_client ex_state JUndefined None] aud0
    by simp
  have tok: "id_token_string (Bare ''h.multi.'') = Inr ''h.multi.''"
    by simp
  have h: "decode_json ex_env (part (split_dot ''h.multi.'') 0) = Inr ex_header"
    by (simp add: ex_env_def ex_segments_def)
  have p: "decode_json ex_env (part (split_dot ''h.multi.'') 1) = Inr ?m"
    by (simp add: ex_env_def ex_segments_def)
  have aud: "get_prop ?m ''aud'' = JArr [JStr ''c'', JStr ''d'']"
    by (simp add: get_prop_def ex_payload_def)
  have azp: "get_prop ?m ''azp'' = JUndefined"
    by (simp add: get_prop_def ex_payload_def)
  have pre: "first_failure (take 8 (claim_checks ex_env ex_client (Bare ''h.multi.'') JUndefined None ex_header ?m)) = Inr ()"
    by (simp add: run_defs ex_defs)
  have 2: "validateIdToken ex_env ex_client ex_state (Bare ''h.multi.'') JUndefined None
       = (ex_state, Inl (Error ''missing required JWT property azp''))"
    using validateIdToken_audience [OF tok h p, of ex_client ex_state JUndefined None] aud azp pre
    by simp
  have tok': "id_token_string (Bare ''h.other.'') = Inr ''h.other.''"
    by simp
  have h': "decode_json ex_env (part (split_dot ''h.other.'') 0) = Inr ex_header"
    by (simp add: ex_env_def ex_segments_def)
  have p': "decode_json ex_env (part (split_dot ''h.other.'') 1) = Inr ?o"
    by (simp add: ex_env_def ex_segments_def)
  have aud': "get_prop ?o ''aud'' = JStr ''d''"
    by (simp add: get_prop_def ex_payload_def)
  have azp': "get_prop ?o ''azp'' = JStr ''d''"
    by (simp add: get_prop_def ex_payload_def)
  have 3: "\<exists>e. snd (validateIdToken ex_env ex_client ex_state (Bare ''h.other.'') JUndefined None) = Inl e"
    using validateIdToken_audience [OF tok' h' p', of ex_client ex_state JUndefined None] aud' azp'
    by (simp add: opt_js_def ex_client_def loose_eq_def)
  from 1 2 3 show ?thesis by blast
qed

subsection \<open>The time checks\<close>

text \<open>
  Claim C5. \<^verbatim>\<open>validateIdToken\<close> takes \<open>now\<close> to be the ceiling of the current unix time
  in seconds. For a token whose payload decodes to \<open>p\<close>, the validation fails when
  \<open>iat\<close> is not a number or is greater than \<open>now\<close>; fails when \<open>nbf\<close> is present and is not
  a number or is greater than \<open>now\<close>; and fails when \<open>exp\<close> is not a number or is at most
  \<open>now\<close>, so that \<open>exp\<close> has to be strictly greater than \<open>now\<close>. An absent \<open>nbf\<close> passes
  its check.
\<close>

theorem validateIdToken_time_checks:
  assumes tok: "id_token_string tok = Inr idToken"
    and p: "decode_json E (part (split_dot idToken) 1) = Inr p"
  shows "now_ceil E = \<lceil>real_of_int (Date_now E) / 1000\<rceil>
    \<and> (\<not> is_number (get_prop p ''iat'')
         \<or> (\<exists>n. get_prop p ''iat'' = JNum n \<and> of_int (now_ceil E) < n)
       \<longrightarrow> (\<exists>e. snd (validateIdToken E c st tok nonce use) = Inl e))
    \<and> (get_prop p ''nbf'' \<noteq> JUndefined
         \<and> (\<not> is_number (get_prop p ''nbf'')
             \<or> (\<exists>n. get_prop p ''nbf'' = JNum n \<and> of_int (now_ceil E) < n))
       \<longrightarrow> (\<exists>e. snd (validateIdToken E c st tok nonce use) = Inl e))
    \<and> (\<not> is_number (get_prop p ''exp'')
         \<or> (\<exists>n. get_prop p ''exp'' = JNum n \<and> n \<le> of_int (now_ceil E))
       \<longrightarrow> (\<exists>e. snd (validateIdToken E c st tok nonce use) = Inl e))
    \<and> (get_prop p ''nbf'' = JUndefined \<longrightarrow> check_nbf (now_ceil E) p = Inr ())"
proof (intro conjI impI)
  show "now_ceil E = \<lceil>real_of_int (Date_now E) / 1000\<rceil>"
    by (rule now_ceil_is_ceiling)
next
  assume "\<not> is_number (get_prop p ''iat'')
         \<or> (\<exists>n. get_prop p ''iat'' = JNum n \<and> of_int (now_ceil E) < n)"
  then obtain e where "check_iat (now_ceil E) p = Inl e"
    using check_iat_fails by blast
  then show "\<exists>e. snd (validateIdToken E c st tok nonce use) = Inl e"
    using validateIdToken_check_fails[OF tok p, of "\<lambda>h. check_iat (now_ceil E) p"]
    by (simp add: claim_checks_def)
next
  assume "get_prop p ''nbf'' \<noteq> JUndefined
         \<and> (\<not> is_number (get_prop p ''nbf'')
             \<or> (\<exists>n. get_prop p ''nbf'' = JNum n \<and> of_int (now_ceil E) < n))"
  then obtain e where "check_nbf (now_ceil E) p = Inl e"
    using check_nbf_fails by blast
  then show "\<exists>e. snd (validateIdToken E c st tok nonce use) = Inl e"
    using validateIdToken_check_fails[OF tok p, of "\<lambda>h. check_nbf (now_ceil E) p"]
    by (simp add: claim_checks_def)
next
  assume "\<not> is_number (get_prop p ''exp'')
         \<or> (\<exists>n. get_prop p ''exp'' = JNum n \<and> n \<le> of_int (now_ceil E))"
  then obtain e where "check_exp (now_ceil E) p = Inl e"
    using check_exp_fails by blast
  then show "\<exists>e. snd (validateIdToken E c st tok nonce use) = Inl e"
    using validateIdToken_check_fails[OF tok p, of "\<lambda>h. check_exp (now_ceil E) p"]
    by (simp add: claim_checks_def)
next
  assume "get_prop p ''nbf'' = JUndefined"
  then show "check_nbf (now_ceil E) p = Inr ()"
    by (simp add: check_nbf_def)
qed

theorem validateIdToken_time_checks_witness:
  "now_ceil ex_env = 1501
   \<and> (\<exists>e. snd (validateIdToken ex_env ex_client ex_state (Bare ''h.late.'') JUndefined None) = Inl e)
   \<and> check_nbf 1501 (ex_payload []) = Inr ()"
proof -
  let ?late = "ex_payload [(''exp'', JNum 1501), (''iat'', JStr ''1000''), (''nbf'', JNum 1502)]"
  have now: "now_ceil ex_env = 1501"
    by (simp add: now_ceil_def ex_env_def)
  have tok: "id_token_string (Bare ''h.late.'') = Inr ''h.late.''"
    by simp
  have p: "decode_json ex_env (part (split_dot ''h.late.'') 1) = Inr ?late"
    by (simp add: ex_env_def ex_segments_def)
  have iat: "\<not> is_number (get_prop ?late ''iat'')"
    by (simp add: get_prop_def ex_payload_def)
  have nbf: "get_prop ?late ''nbf'' = JNum 1502"
    by (simp add: get_prop_def ex_payload_def)
  have exp: "get_prop ?late ''exp'' = JNum 1501"
    by (simp add: get_prop_def ex_payload_def)
  have fails: "\<exists>e. snd (validateIdToken ex_env ex_client ex_state (Bare ''h.late.'') JUndefined None) = Inl e"
    using validateIdToken_time_checks [OF tok p, of ex_client ex_state JUndefined None] iat nbf exp now
    by simp
  have tok': "id_token_string (Bare ''h.p.'') = Inr ''h.p.''"
    by simp
  have p': "decode_json ex_env (part (split_dot ''h.p.'') 1) = Inr (ex_payload [])"
    by (simp add: ex_env_def ex_segments_def)
  have "get_prop (ex_payload []) ''nbf'' = JUndefined"
    by (simp add: get_prop_def ex_payload_def)
  then have "check_nbf 1501 (ex_payload []) = Inr ()"
    using validateIdToken_time_checks [OF tok' p', of ex_client ex_state JUndefined None] now
    by simp
  with now fails show ?thesis by blast
qed

subsection \<open>Client assertions\<close>

text \<open>
  Claim C6. With \<open>token_endpoint_auth_method\<close> \<^verbatim>\<open>client_secret_jwt\<close> or
  \<^verbatim>\<open>private_key_jwt\<close>, whenever \<^verbatim>\<open>grantAuth\<close> returns, what it returns is the body fields
  \<open>client_assertion\<close> and \<open>client_assertion_type =
  urn:ietf:params:oauth:client-assertion-type:jwt-bearer\<close>, where the assertion is what
  the signer of \<^verbatim>\<open>createSign\<close> makes of the payload with \<open>iat = now\<close> (the floor of the
  unix time in seconds), \<open>exp = now + 60\<close>, \<open>jti\<close> the next identifier drawn from
  \<^verbatim>\<open>uuid()\<close>, \<open>iss\<close> and \<open>sub\<close> the client id and \<open>aud\<close> the issuer's token endpoint. The
  call draws exactly one identifier, so that, for a generator that never repeats a
  value (which is for \<^verbatim>\<open>node-uuid\<close> to ensure), no later draw equals this \<open>jti\<close>.
\<close>

theorem grantAuth_client_assertion:
  assumes m: "token_endpoint_auth_method c = ''client_secret_jwt''
            \<or> token_endpoint_auth_method c = ''private_key_jwt''"
    and g: "grantAuth E c st = (st2, Inr res)"
  shows "\<exists>st' alg key reference client_assertion.
           createSign E c st = (st', Inr (Signer alg key reference))
         \<and> JWS_sign E alg key reference
             (JSON_stringify E
                [(''iat'', JNum (of_int (now_floor E))),
                 (''exp'', JNum (of_int (now_floor E + 60))),
                 (''jti'', JStr (uuid E (uuid_calls st))),
                 (''iss'', opt_js (client_id c)),
                 (''sub'', opt_js (client_id c)),
                 (''aud'', opt_js (token_endpoint (client_issuer c)))]) = Inr client_assertion
         \<and> res = Body [(''client_assertion'', JStr client_assertion),
                        (''client_assertion_type'',
                         JStr ''urn:ietf:params:oauth:client-assertion-type:jwt-bearer'')]
         \<and> uuid_calls st2 = Suc (uuid_calls st)
         \<and> (inj (uuid E) \<longrightarrow> (\<forall>k. uuid_calls st2 \<le> k \<longrightarrow> uuid E k \<noteq> uuid E (uuid_calls st)))
         \<and> now_floor E = \<lfloor>real_of_int (Date_now E) / 1000\<rfloor>"
proof -
  obtain st' r where cs: "createSign E c st = (st', r)"
    by (cases "createSign E c st") auto
  have u: "uuid_calls st' = uuid_calls st"
    using createSign_uuid_calls[OF cs] .
  note ga = grantAuth_jwt[OF m, of E st]
  show ?thesis
  proof (cases r)
    case (Inl e)
    then show ?thesis using g cs ga by simp
  next
    case (Inr sg)
    obtain alg key reference where sg: "sg = Signer alg key reference"
      by (cases sg) auto
    have fresh: "inj (uuid E) \<longrightarrow> (\<forall>k. Suc (uuid_calls st) \<le> k \<longrightarrow> uuid E k \<noteq> uuid E (uuid_calls st))"
      by (auto dest: injD)
    show ?thesis
      using g cs Inr sg u now_floor_is_floor[of E] ga fresh
      by (auto split: sum.splits)
  qed
qed

theorem grantAuth_client_assertion_witness:
  "grantAuth ex_env ex_jwt_client ex_state
     = (\<lparr>jose_secret = Some (JWK ''cw'' [''HS256'']), uuid_calls = 1\<rparr>,
        Inr (Body [(''client_assertion'', JStr ''signed:iat;exp;jti=u;iss=c;sub=c;aud=https://op.example/token;''),
                   (''client_assertion_type'',
                    JStr ''urn:ietf:params:oauth:client-assertion-type:jwt-bearer'')]))
   \<and> (\<exists>st' alg key reference client_assertion.
           createSign ex_env ex_jwt_client ex_state = (st', Inr (Signer alg key reference))
         \<and> JWS_sign ex_env alg key reference
             (JSON_stringify ex_env
                [(''iat'', JNum 1500),
                 (''exp'', JNum 1560),
                 (''jti'', JStr ''u''),
                 (''iss'', JStr ''c''),
                 (''sub'', JStr ''c''),
                 (''aud'', JStr ''https://op.example/token'')]) = Inr client_assertion)
   \<and> inj (uuid ex_env)
   \<and> uuid ex_env 1 \<noteq> ''u''"
proof -
  have i: "inj (uuid ex_env)"
  proof (rule injI)
    fix x y assume "uuid ex_env x = uuid ex_env y"
    then have "length (replicate (Suc x) CHR ''u'') = length (replicate (Suc y) CHR ''u'')"
      by (simp add: ex_env_def)
    then show "x = y" by simp
  qed
  have m: "token_endpoint_auth_method ex_jwt_client = ''client_secret_jwt''
            \<or> token_endpoint_auth_method ex_jwt_client = ''private_key_jwt''"
    by (simp add: ex_jwt_client_def)
  have g: "grantAuth ex_env ex_jwt_client ex_state
     = (\<lparr>jose_secret = Some (JWK ''cw'' [''HS256'']), uuid_calls = 1\<rparr>,
        Inr (Body [(''client_assertion'', JStr ''signed:iat;exp;jti=u;iss=c;sub=c;aud=https://op.example/token;''),
                   (''client_assertion_type'',
                    JStr ''urn:ietf:params:oauth:client-assertion-type:jwt-bearer'')]))"
    by (simp add: grantAuth_def createSign_def joseSecret_def falsy_str_def lodash_find_def
        base64url_def base64_def b64char_def now_floor_def opt_js_def
        ex_jwt_client_def ex_client_def ex_issuer_def ex_env_def ex_state_def)
  have vals: "now_floor ex_env = 1500" "uuid ex_env (uuid_calls ex_state) = ''u''"
    "opt_js (client_id ex_jwt_client) = JStr ''c''"
    "opt_js (token_endpoint (client_issuer ex_jwt_client)) = JStr ''https://op.example/token''"
    by (simp_all add: now_floor_def ex_env_def ex_state_def opt_js_def ex_jwt_client_def
        ex_client_def ex_issuer_def)
  have "\<exists>st' alg key reference client_assertion.
           createSign ex_env ex_jwt_client ex_state = (st', Inr (Signer alg key reference))
         \<and> JWS_sign ex_env alg key reference
             (JSON_stringify ex_env
                [(''iat'', JNum 1500),
                 (''exp'', JNum 1560),
                 (''jti'', JStr ''u''),
                 (''iss'', JStr ''c''),
                 (''sub'', JStr ''c''),
                 (''aud'', JStr ''https://op.example/token'')]) = Inr client_assertion
         \<and> (\<forall>k. 1 \<le> k \<longrightarrow> uuid ex_env k \<noteq> ''u'')"
    using grantAuth_client_assertion [OF m g] i vals by auto
  then show ?thesis
    using g i by auto
qed

subsection \<open>The other authentication methods\<close>

text \<open>
  Claim C7. With \<open>token_endpoint_auth_method\<close> \<^verbatim>\<open>none\<close>, \<^verbatim>\<open>grantAuth\<close> fails. With
  \<^verbatim>\<open>client_secret_basic\<close> and a client id \<open>cid\<close> and client secret \<open>secret\<close>, it returns
  exactly the header \<open>Authorization: Basic base64(cid:secret)\<close>. With
  \<^verbatim>\<open>client_secret_post\<close> it returns the body fields \<open>client_id\<close> and \<open>client_secret\<close>.
\<close>

theorem grantAuth_none_basic_post:
  "(token_endpoint_auth_method c = ''none''
      \<longrightarrow> grantAuth E c st = (st, Inl (Error ''client not supposed to use grant authz'')))
   \<and> (token_endpoint_auth_method c = ''client_secret_basic'' \<and> client_id c = Some cid
        \<and> client_secret c = Some secret
      \<longrightarrow> grantAuth E c st
           = (st, Inr (Headers [(''Authorization'', JStr (''Basic '' @ base64 (cid @ '':'' @ secret)))])))
   \<and> (token_endpoint_auth_method c = ''client_secret_post''
      \<longrightarrow> grantAuth E c st
           = (st, Inr (Body [(''client_id'', opt_js (client_id c)),
                             (''client_secret'', opt_js (client_secret c))])))"
  by (simp add: grantAuth_def template_def)

theorem grantAuth_none_basic_post_witness:
  "grantAuth ex_env (ex_client\<lparr>token_endpoint_auth_method := ''none''\<rparr>) ex_state
     = (ex_state, Inl (Error ''client not supposed to use grant authz''))
   \<and> grantAuth ex_env ex_client ex_state
     = (ex_state, Inr (Headers [(''Authorization'', JStr ''Basic Yzpz'')]))
   \<and> grantAuth ex_env (ex_client\<lparr>token_endpoint_auth_method := ''client_secret_post''\<rparr>) ex_state
     = (ex_state, Inr (Body [(''client_id'', JStr ''c''), (''client_secret'', JStr ''s'')]))"
proof -
  have b: "base64 ''c:s'' = ''Yzpz''"
    by (simp add: base64_def b64char_def)
  have 1: "grantAuth ex_env (ex_client\<lparr>token_endpoint_auth_method := ''none''\<rparr>) ex_state
     = (ex_state, Inl (Error ''client not supposed to use grant authz''))"
    using grantAuth_none_basic_post [where c = "ex_client\<lparr>token_endpoint_auth_method := ''none''\<rparr>"
        and E = ex_env and st = ex_state]
    by simp
  have 2: "grantAuth ex_env ex_client ex_state
     = (ex_state, Inr (Headers [(''Authorization'', JStr ''Basic Yzpz'')]))"
    using grantAuth_none_basic_post [where c = ex_client and cid = "''c''" and secret = "''s''"
        and E = ex_env and st = ex_state] b
    by (simp add: ex_client_def)
  have 3: "grantAuth ex_env (ex_client\<lparr>token_endpoint_auth_method := ''client_secret_post''\<rparr>) ex_state
     = (ex_state, Inr (Body [(''client_id'', JStr ''c''), (''client_secret'', JStr ''s'')]))"
    using grantAuth_none_basic_post [where c = "ex_client\<lparr>token_endpoint_auth_method := ''client_secret_post''\<rparr>"
        and E = ex_env and st = ex_state]
    by (simp add: ex_client_def opt_js_def)
  from 1 2 3 show ?thesis by blast
qed

text \<open>
  Claim C8. With any \<open>token_endpoint_auth_method\<close> other than \<^verbatim>\<open>none\<close>,
  \<^verbatim>\<open>client_secret_post\<close>, \<^verbatim>\<open>client_secret_jwt\<close> and \<^verbatim>\<open>private_key_jwt\<close>, a string that
  names no method included, \<^verbatim>\<open>grantAuth\<close> succeeds and returns the \<^verbatim>\<open>Basic\<close>
  authorization header made of the client id and the client secret.
\<close>

theorem grantAuth_default_branch:
  assumes "token_endpoint_auth_method c \<noteq> ''none''"
    and "token_endpoint_auth_method c \<noteq> ''client_secret_post''"
    and "token_endpoint_auth_method c \<noteq> ''client_secret_jwt''"
    and "token_endpoint_auth_method c \<noteq> ''private_key_jwt''"
  shows "grantAuth E c st
     = (st, Inr (Headers
          [(''Authorization'',
            JStr (''Basic '' @ base64 (template (client_id c) @ '':'' @ template (client_secret c))))]))"
  using assms by (simp add: grantAuth_def)

theorem grantAuth_default_branch_witness:
  "grantAuth ex_env (ex_client\<lparr>token_endpoint_auth_method := ''no such method''\<rparr>) ex_state
     = (ex_state, Inr (Headers [(''Authorization'', JStr ''Basic Yzpz'')]))"
proof -
  have b: "base64 ''c:s'' = ''Yzpz''"
    by (simp add: base64_def b64char_def)
  show ?thesis
    using grantAuth_default_branch [of "ex_client\<lparr>token_endpoint_auth_method := ''no such method''\<rparr>" ex_env ex_state] b
    by (simp add: ex_client_def template_def)
qed

subsection \<open>The constructor\<close>

text \<open>
  Claim C9. Constructing a client whose \<open>token_endpoint_auth_method\<close> (after the
  defaults) ends in \<^verbatim>\<open>_jwt\<close>, for an issuer that has no
  \<open>token_endpoint_auth_signing_alg_values_supported\<close>, fails: the constructor returns no
  client on which \<^verbatim>\<open>grantAuth\<close> could be called later, and when the key store argument
  is acceptable the error is the one about the issuer's property. With a method that
  does not end in \<^verbatim>\<open>_jwt\<close> the construction succeeds whatever the issuer has there.
\<close>

theorem BaseClient_constructor_jwt_check:
  "(endsWith (with_default (m_token_endpoint_auth_method m) default_token_endpoint_auth_method) ''_jwt''
      \<and> token_endpoint_auth_signing_alg_values_supported iss = None
    \<longrightarrow> (\<exists>e. BaseClient_constructor iss m ks = Inl e)
      \<and> (ks = KsUndefined \<or> isKeyStore ks
         \<longrightarrow> BaseClient_constructor iss m ks
              = Inl (AssertionError ''token_endpoint_auth_signing_alg_values_supported must be provided on the issuer'')))
   \<and> (\<not> endsWith (with_default (m_token_endpoint_auth_method m) default_token_endpoint_auth_method) ''_jwt''
      \<and> (ks = KsUndefined \<or> isKeyStore ks)
    \<longrightarrow> (\<exists>c. BaseClient_constructor iss m ks = Inr c
             \<and> token_endpoint_auth_method c
                = with_default (m_token_endpoint_auth_method m) default_token_endpoint_auth_method))"
  by (auto simp: BaseClient_constructor_def)

theorem BaseClient_constructor_jwt_check_witness:
  "BaseClient_constructor ex_issuer (ex_metadata\<lparr>m_token_endpoint_auth_method := Some ''private_key_jwt''\<rparr>) KsUndefined
     = Inl (AssertionError ''token_endpoint_auth_signing_alg_values_supported must be provided on the issuer'')
   \<and> (\<exists>c. BaseClient_constructor ex_issuer ex_metadata KsUndefined = Inr c
          \<and> token_endpoint_auth_method c = ''client_secret_basic'')"
proof -
  have e1: "endsWith (with_default (m_token_endpoint_auth_method
       (ex_metadata\<lparr>m_token_endpoint_auth_method := Some ''private_key_jwt''\<rparr>))
       default_token_endpoint_auth_method) ''_jwt''"
    by (simp add: endsWith_def with_default_def)
  have n: "token_endpoint_auth_signing_alg_values_supported ex_issuer = None"
    by (simp add: ex_issuer_def)
  have 1: "BaseClient_constructor ex_issuer (ex_metadata\<lparr>m_token_endpoint_auth_method := Some ''private_key_jwt''\<rparr>) KsUndefined
     = Inl (AssertionError ''token_endpoint_auth_signing_alg_values_supported must be provided on the issuer'')"
    using BaseClient_constructor_jwt_check [where m = "ex_metadata\<lparr>m_token_endpoint_auth_method := Some ''private_key_jwt''\<rparr>"
        and iss = ex_issuer and ks = KsUndefined] e1 n
    by blast
  have e2: "with_default (m_token_endpoint_auth_method ex_metadata) default_token_endpoint_auth_method
      = ''client_secret_basic''"
    by (simp add: with_default_def ex_metadata_def default_token_endpoint_auth_method_def)
  have e3: "\<not> endsWith ''client_secret_basic'' ''_jwt''"
    by (simp add: endsWith_def)
  have 2: "\<exists>c. BaseClient_constructor ex_issuer ex_metadata KsUndefined = Inr c
          \<and> token_endpoint_auth_method c = ''client_secret_basic''"
    using BaseClient_constructor_jwt_check [where m = ex_metadata and iss = ex_issuer and ks = KsUndefined]
      e2 e3
    by simp
  from 1 2 show ?thesis by blast
qed

subsection \<open>Expiry of a token set\<close>

text \<open>
  Claim C10. For every integer \<open>n\<close>, a token set constructed at time \<open>now\<close> from a
  response with \<open>expires_in = n\<close> has \<open>expires_at = now + n\<close>; read at that same time,
  \<open>expired()\<close> is true exactly when \<open>n \<le> 0\<close> and \<open>expires_in\<close> is
  \<open>max(expires_at - now, 0)\<close>, that is \<open>max(n, 0)\<close>, so \<open>0\<close> for a negative \<open>n\<close>.
\<close>

theorem TokenSet_expires:
  assumes "r_expires_in r = Some n"
  shows "expires_at (new_TokenSet now r) = Some (now + n)
       \<and> expired now (new_TokenSet now r) = (n \<le> 0)
       \<and> (\<exists>t. expires_at (new_TokenSet now r) = Some t
              \<and> expires_in now (new_TokenSet now r) = Some (max (t - now) 0))
       \<and> expires_in now (new_TokenSet now r) = Some (max n 0)
       \<and> (n < 0 \<longrightarrow> expires_in now (new_TokenSet now r) = Some 0)"
  using assms by (simp add: new_TokenSet_def expired_def expires_in_def)

theorem TokenSet_expires_witness:
  "expires_at (new_TokenSet 1500 (ex_response 300)) = Some 1800
   \<and> \<not> expired 1500 (new_TokenSet 1500 (ex_response 300))
   \<and> expires_in 1500 (new_TokenSet 1500 (ex_response 300)) = Some 300
   \<and> expires_at (new_TokenSet 1500 (ex_response (- 30))) = Some 1470
   \<and> expired 1500 (new_TokenSet 1500 (ex_response (- 30)))
   \<and> expires_in 1500 (new_TokenSet 1500 (ex_response (- 30))) = Some 0"
proof -
  have a: "r_expires_in (ex_response 300) = Some 300"
    by (simp add: ex_response_def)
  have b: "r_expires_in (ex_response (- 30)) = Some (- 30)"
    by (simp add: ex_response_def)
  show ?thesis
    using TokenSet_expires [OF a, of 1500] TokenSet_expires [OF b, of 1500]
    by simp
qed

subsection \<open>The earlier revision\<close>

text \<open>
  Where the earlier revision of \<^verbatim>\<open>validateIdToken\<close> differs. Its nonce guard compares
  whenever the payload's nonce is truthy or the caller's is not \<^verbatim>\<open>undefined\<close>, and then
  as the later revision does; with no nonce on either side it passes as well. A falsy
  nonce in the payload is not compared when the caller gives none, where the later
  revision reports the mismatch. A hash claim is not checked when the token lacks the
  field, and a token with \<open>alg\<close> \<^verbatim>\<open>none\<close> goes through the key lookup and the
  verification like any other.
\<close>

lemma check_nonce_earlier_compared:
  "truthy (get_prop p ''nonce'') \<or> nonce \<noteq> JUndefined
   \<Longrightarrow> check_nonce_earlier E nonce p = check_nonce E nonce p"
  by (auto simp: check_nonce_earlier_def check_nonce_def)

lemma check_nonce_earlier_vacuous:
  "get_prop p ''nonce'' = JUndefined \<Longrightarrow> is_nullish nonce \<Longrightarrow> check_nonce_earlier E nonce p = Inr ()"
  by (cases nonce) (simp_all add: check_nonce_earlier_def assert_equal_def assert_ok_def loose_eq_def)

lemma check_nonce_earlier_skipped:
  "\<not> truthy (get_prop p ''nonce'') \<Longrightarrow> check_nonce_earlier E JUndefined p = Inr ()"
  by (simp add: check_nonce_earlier_def)

lemma check_nonce_revisions_differ:
  "check_nonce_earlier E JUndefined [(''nonce'', JStr [])] = Inr ()"
  "check_nonce E JUndefined [(''nonce'', JStr [])] = Inl (AssertionError ''nonce mismatch'')"
  by (simp_all add: check_nonce_earlier_def check_nonce_def assert_equal_def assert_ok_def
      loose_eq_def get_prop_def)

lemma check_at_hash_earlier_absent_field:
  "token_access_token tok = None \<Longrightarrow> check_at_hash_earlier E tok h p = Inr ()"
  by (simp add: check_at_hash_earlier_def falsy_str_def)

lemma check_c_hash_earlier_absent_field:
  "token_code tok = None \<Longrightarrow> check_c_hash_earlier E tok h p = Inr ()"
  by (simp add: check_c_hash_earlier_def falsy_str_def)

lemma validateIdToken_earlier_verifies_none:
  "validateIdToken_earlier ex_env ex_client ex_state (Bare ''h.p.'') JUndefined
     = (ex_state, Inl (Error ''no key''))"
  by (simp add: validateIdToken_earlier_def claim_checks_earlier_def verify_signature_earlier_def
      check_alg_earlier_def check_nonce_earlier_def check_at_hash_earlier_def
      check_c_hash_earlier_def startsWith_def run_defs ex_defs)

end
